theory Spec2Isabelle
  imports Complex_Main
begin

section \<open>Python values\<close>

text \<open>
  A Python \<open>str\<close> is a sequence of Unicode code points and \<open>len\<close> counts code points,
  so a string is a list of code points. \<open>lit\<close> turns an ASCII literal of the source
  into its code points.
\<close>

type_synonym ustr = "nat list"

abbreviation (input) lit :: "string \<Rightarrow> ustr" where
  "lit s \<equiv> map of_char s"

text \<open>
  The events the handlers receive are parsed JSON: \<open>None\<close>, \<open>bool\<close>, \<open>int\<close>,
  \<open>float\<close>, \<open>str\<close>, \<open>list\<close> and \<open>dict\<close> with string keys. A \<open>dict\<close> is an
  association list read by \<open>map_of\<close>. A finite float is the real number it denotes.
  Python's JSON reader also produces the three floats that are no real number: it accepts
  the tokens \<open>Infinity\<close>, \<open>-Infinity\<close> and \<open>NaN\<close>, and a literal beyond the range of a
  double, such as \<open>1e400\<close>, becomes an infinity.
\<close>

datatype json =
    JNull
  | JBool bool
  | JInt int
  | JFloat real
  | JPosInf
  | JNegInf
  | JNaN
  | JStr ustr
  | JArr "json list"
  | JObj "(ustr \<times> json) list"

text \<open>The exceptions the handlers can meet; \<open>Upstream\<close> is a fault of a library call
  (object store, decoding) with its message.\<close>

datatype exn = AttributeError | TypeError | ValueError | OverflowError | Upstream ustr

text \<open>Truthiness, as \<open>if x:\<close> and \<open>not x\<close> test it.\<close>

fun truthy :: "json \<Rightarrow> bool" where
  "truthy JNull = False"
| "truthy (JBool b) = b"
| "truthy (JInt i) = (i \<noteq> 0)"
| "truthy (JFloat r) = (r \<noteq> 0)"
| "truthy JPosInf = True"
| "truthy JNegInf = True"
| "truthy JNaN = True"
| "truthy (JStr s) = (s \<noteq> [])"
| "truthy (JArr xs) = (xs \<noteq> [])"
| "truthy (JObj kvs) = (kvs \<noteq> [])"

text \<open>\<open>x.get(k)\<close> and \<open>x.get(k, d)\<close>: only a \<open>dict\<close> has the method.\<close>

definition get_default :: "(ustr \<times> json) list \<Rightarrow> ustr \<Rightarrow> json \<Rightarrow> json" where
  "get_default kvs k d = (case map_of kvs k of None \<Rightarrow> d | Some v \<Rightarrow> v)"

fun py_get :: "json \<Rightarrow> ustr \<Rightarrow> json \<Rightarrow> exn + json" where
  "py_get (JObj kvs) k d = Inr (get_default kvs k d)"
| "py_get _ k d = Inl AttributeError"

section \<open>String operations\<close>

text \<open>Splitting at every element that satisfies \<open>P\<close>: always at least one piece.
  \<open>str.split(sep)\<close> for a one-character separator is the instance \<open>split_on\<close>.\<close>

fun split_where :: "('a \<Rightarrow> bool) \<Rightarrow> 'a list \<Rightarrow> 'a list list" where
  "split_where P [] = [[]]"
| "split_where P (x # xs) =
     (if P x then [] # split_where P xs
      else (case split_where P xs of
              [] \<Rightarrow> [[x]]
            | p # ps \<Rightarrow> (x # p) # ps))"

definition split_on :: "'a \<Rightarrow> 'a list \<Rightarrow> 'a list list" where
  "split_on c xs = split_where (\<lambda>x. x = c) xs"

text \<open>The code points \<open>str.strip()\<close> removes (those \<open>str.isspace\<close> accepts).\<close>

definition is_space :: "nat \<Rightarrow> bool" where
  "is_space c \<longleftrightarrow>
     (9 \<le> c \<and> c \<le> 13) \<or> (28 \<le> c \<and> c \<le> 32) \<or> c = 133 \<or> c = 160 \<or> c = 5760 \<or>
     (8192 \<le> c \<and> c \<le> 8202) \<or> c = 8232 \<or> c = 8233 \<or> c = 8239 \<or> c = 8287 \<or> c = 12288"

definition strip :: "ustr \<Rightarrow> ustr" where
  "strip s = rev (dropWhile is_space (rev (dropWhile is_space s)))"

text \<open>\<open>str.split()\<close> without a separator: the maximal runs of non-space code points.\<close>

definition split_ws :: "ustr \<Rightarrow> ustr list" where
  "split_ws s = filter (\<lambda>w. w \<noteq> []) (split_where is_space s)"

text \<open>\<open>str.lower()\<close> on the ASCII letters; every other code point is kept as it is (the
  literals and the catalog of the source are ASCII).\<close>

definition lower :: "ustr \<Rightarrow> ustr" where
  "lower s = map (\<lambda>c. if 65 \<le> c \<and> c \<le> 90 then c + 32 else c) s"

definition endswith :: "'a list \<Rightarrow> 'a list \<Rightarrow> bool" where
  "endswith s suffix \<longleftrightarrow>
     length suffix \<le> length s \<and> drop (length s - length suffix) s = suffix"

text \<open>\<open>q in s\<close> for strings: \<open>q\<close> occurs in \<open>s\<close> as a contiguous piece.\<close>

fun contains :: "'a list \<Rightarrow> 'a list \<Rightarrow> bool" where
  "contains [] q = (q = [])"
| "contains (x # xs) q = (take (length q) (x # xs) = q \<or> contains xs q)"

text \<open>\<open>sep.join(xs)\<close>.\<close>

fun join :: "'a list \<Rightarrow> 'a list list \<Rightarrow> 'a list" where
  "join sep [] = []"
| "join sep [x] = x"
| "join sep (x # y # ys) = x @ sep @ join sep (y # ys)"

text \<open>\<open>xs[:i]\<close>: a negative bound counts from the end.\<close>

definition slice_to :: "'a list \<Rightarrow> int \<Rightarrow> 'a list" where
  "slice_to xs i = (if 0 \<le> i then take (nat i) xs else take (length xs - nat (- i)) xs)"

section \<open>Summary generator: the three summaries\<close>

text \<open>\<open>[s.strip() for s in text.split('.') if s.strip()]\<close>, the first statement of each
  of the three summary functions.\<close>

definition sentences_of :: "ustr \<Rightarrow> ustr list" where
  "sentences_of text = filter (\<lambda>s. s \<noteq> []) (map strip (split_on (of_char CHR ''.'') text))"

text \<open>\<open>max_length\<close> is an \<open>int\<close> or \<open>None\<close>; \<open>if max_length and ...\<close> treats \<open>0\<close> as
  \<open>None\<close>.\<close>

definition generate_brief_summary :: "ustr \<Rightarrow> int option \<Rightarrow> ustr" where
  "generate_brief_summary text max_length =
     (let sentences = sentences_of text in
      if sentences = [] then lit ''No content to summarize.''
      else
        let summary =
              (if length sentences = 1 then hd sentences
               else if length sentences = 2 then hd sentences @ lit ''. '' @ sentences ! 1
               else hd sentences @ lit ''. '' @ last sentences)
        in (case max_length of
              None \<Rightarrow> summary
            | Some m \<Rightarrow>
                if m \<noteq> 0 \<and> int (length summary) > m
                then slice_to summary (m - 3) @ lit ''...''
                else summary))"

definition generate_detailed_summary :: "ustr \<Rightarrow> int option \<Rightarrow> ustr" where
  "generate_detailed_summary text max_length =
     (let sentences = sentences_of text in
      if sentences = [] then lit ''No content to summarize.''
      else
        let max_sentences = min 5 (length sentences);
            summary =
              (if length sentences \<le> max_sentences
               then join (lit ''. '') sentences @ lit ''.''
               else
                 let first_sentences = take 3 sentences;
                     last_sentences = drop (length sentences - 2) sentences
                 in join (lit ''. '') (first_sentences @ last_sentences) @ lit ''.'')
        in (case max_length of
              None \<Rightarrow> summary
            | Some m \<Rightarrow>
                if m \<noteq> 0 \<and> int (length summary) > m
                then slice_to summary (m - 3) @ lit ''...''
                else summary))"

text \<open>The bullet prefix as the source file has it: the code points U+00E2, U+20AC,
  U+00A2 and a space.\<close>

definition bullet :: ustr where
  "bullet = [226, 8364, 162, 32]"

text \<open>The loop that keeps whole bullet points while they fit into \<open>max_length - 3\<close>.\<close>

fun truncate_points :: "int \<Rightarrow> ustr list \<Rightarrow> int \<Rightarrow> ustr list \<Rightarrow> ustr list" where
  "truncate_points m [] current_length truncated_points = truncated_points"
| "truncate_points m (point # points) current_length truncated_points =
     (if current_length + int (length point) + 1 \<le> m - 3
      then truncate_points m points (current_length + int (length point) + 1)
             (truncated_points @ [point])
      else truncated_points)"

definition generate_bullet_points_summary :: "ustr \<Rightarrow> int option \<Rightarrow> ustr" where
  "generate_bullet_points_summary text max_length =
     (let sentences = sentences_of text in
      if sentences = [] then lit ''No content to summarize.''
      else
        let max_points = min 5 (length sentences);
            selected_sentences = take max_points sentences;
            bullet_points =
              map (\<lambda>sentence.
                     bullet @ (if length sentence > 100 then take 97 sentence @ lit ''...''
                               else sentence))
                  selected_sentences;
            summary = join (lit [CHR 0x0A]) bullet_points
        in (case max_length of
              None \<Rightarrow> summary
            | Some m \<Rightarrow>
                if m \<noteq> 0 \<and> int (length summary) > m
                then join (lit [CHR 0x0A]) (truncate_points m bullet_points 0 []) @ lit ''...''
                else summary))"

section \<open>Dictionaries built by the handlers\<close>

text \<open>
  A key of a Python \<open>dict\<close> must be hashable, and keys are compared by \<open>==\<close>: \<open>1\<close>,
  \<open>True\<close> and \<open>1.0\<close> are one key. Lists and dicts are unhashable. (Two \<open>NaN\<close>
  objects are two keys in Python and one key here; the handlers read string keys only.)
\<close>

datatype key = KNone | KNum real | KPosInf | KNegInf | KNaN | KStr ustr

fun dict_key :: "json \<Rightarrow> exn + key" where
  "dict_key JNull = Inr KNone"
| "dict_key (JBool b) = Inr (KNum (of_bool b))"
| "dict_key (JInt i) = Inr (KNum (of_int i))"
| "dict_key (JFloat r) = Inr (KNum r)"
| "dict_key JPosInf = Inr KPosInf"
| "dict_key JNegInf = Inr KNegInf"
| "dict_key JNaN = Inr KNaN"
| "dict_key (JStr s) = Inr (KStr s)"
| "dict_key (JArr xs) = Inl TypeError"
| "dict_key (JObj kvs) = Inl TypeError"

type_synonym pydict = "key \<rightharpoonup> json"

definition dict_get :: "pydict \<Rightarrow> ustr \<Rightarrow> json \<Rightarrow> json" where
  "dict_get d k dflt = (case d (KStr k) of None \<Rightarrow> dflt | Some v \<Rightarrow> v)"

text \<open>\<open>for x in v\<close>: a list gives its elements, a string its characters, a dict its
  keys; nothing else is iterable.\<close>

fun py_iter :: "json \<Rightarrow> exn + json list" where
  "py_iter (JArr xs) = Inr xs"
| "py_iter (JStr s) = Inr (map (\<lambda>c. JStr [c]) s)"
| "py_iter (JObj kvs) = Inr (map (\<lambda>kv. JStr (fst kv)) kvs)"
| "py_iter _ = Inl TypeError"

text \<open>
  The loop of both \<open>lambda_handler\<close>s that converts the parameters list to a dictionary:
  \<^verbatim>\<open>for param in parameters_list:
      parameters[param.get('name', '')] = param.get('value', '')\<close>
\<close>

fun parameters_loop :: "json list \<Rightarrow> pydict \<Rightarrow> exn + pydict" where
  "parameters_loop [] parameters = Inr parameters"
| "parameters_loop (param # rest) parameters =
     (case py_get param (lit ''value'') (JStr []) of
        Inl e \<Rightarrow> Inl e
      | Inr v \<Rightarrow>
          (case py_get param (lit ''name'') (JStr []) of
             Inl e \<Rightarrow> Inl e
           | Inr n \<Rightarrow>
               (case dict_key n of
                  Inl e \<Rightarrow> Inl e
                | Inr k \<Rightarrow> parameters_loop rest (parameters(k \<mapsto> v)))))"

definition parameters_dict :: "json \<Rightarrow> exn + pydict" where
  "parameters_dict parameters_list =
     (case py_iter parameters_list of
        Inl e \<Rightarrow> Inl e
      | Inr params \<Rightarrow> parameters_loop params Map.empty)"

section \<open>Library functions the handlers call\<close>

text \<open>
  What the Python runtime and the object-store client compute is a parameter of the
  model: \<open>hash\<close> of a string, \<open>int\<close> of a string (\<open>None\<close> is \<open>ValueError\<close>),
  \<open>str\<close> of a value that is not a string, \<open>str(e)\<close> of an exception,
  \<open>round(a / b, 2)\<close>, \<open>get_object(...)['Body'].read()\<close>, the decoders and the JSON
  reader and printer. Bytes are 8-bit characters.
\<close>

record pylib =
  py_hash :: "ustr \<Rightarrow> int"
  int_of_str :: "ustr \<Rightarrow> int option"
  str_of :: "json \<Rightarrow> ustr"
  exn_text :: "exn \<Rightarrow> ustr"
  round_ratio :: "nat \<Rightarrow> nat \<Rightarrow> real"
  get_object :: "json \<Rightarrow> json \<Rightarrow> exn + string"
  decode_utf8 :: "string \<Rightarrow> exn + ustr"
  decode_utf8_ignore :: "string \<Rightarrow> ustr"
  json_loads :: "ustr \<Rightarrow> exn + json"
  json_dumps_indent :: "json \<Rightarrow> ustr"

text \<open>\<open>f'{v}'\<close>: a string is inserted as it is.\<close>

definition py_format :: "pylib \<Rightarrow> json \<Rightarrow> ustr" where
  "py_format lib v = (case v of JStr s \<Rightarrow> s | _ \<Rightarrow> str_of lib v)"

text \<open>\<open>int(v)\<close>: a finite float is truncated towards zero, an infinity is an
  \<open>OverflowError\<close>, \<open>NaN\<close> a \<open>ValueError\<close>; \<open>None\<close>, a list and a dict are a
  \<open>TypeError\<close>.\<close>

fun py_int :: "pylib \<Rightarrow> json \<Rightarrow> exn + int" where
  "py_int lib (JStr s) = (case int_of_str lib s of None \<Rightarrow> Inl ValueError | Some i \<Rightarrow> Inr i)"
| "py_int lib (JInt i) = Inr i"
| "py_int lib (JBool b) = Inr (of_bool b)"
| "py_int lib (JFloat r) = Inr (if 0 \<le> r then \<lfloor>r\<rfloor> else \<lceil>r\<rceil>)"
| "py_int lib JPosInf = Inl OverflowError"
| "py_int lib JNegInf = Inl OverflowError"
| "py_int lib JNaN = Inl ValueError"
| "py_int lib _ = Inl TypeError"

text \<open>\<open>f'{n:05d}'\<close> for \<open>0 \<le> n < 100000\<close>, the range of \<open>hash(...) % 100000\<close>.\<close>

definition fmt_05d :: "int \<Rightarrow> ustr" where
  "fmt_05d n = map (\<lambda>k. 48 + nat ((n div 10 ^ k) mod 10)) [4, 3, 2, 1, 0]"

section \<open>The function-call envelope\<close>

text \<open>
  The response of \<open>create_success_response\<close> and \<open>create_error_response\<close> (the same in the
  summary generator and the text processor). \<open>responseBody\<close> is the object handed to
  \<open>json.dumps\<close> for \<open>response.functionResponse.responseBody.TEXT.body\<close>;
  \<open>responseState\<close> is absent on success.
\<close>

record envelope =
  messageVersion :: ustr
  actionGroup :: json
  function_name :: json
  responseState :: "ustr option"
  responseBody :: json

definition create_success_response :: "json \<Rightarrow> json \<Rightarrow> json \<Rightarrow> envelope" where
  "create_success_response action_group fn result =
     \<lparr>messageVersion = lit ''1.0'', actionGroup = action_group, function_name = fn,
      responseState = None, responseBody = result\<rparr>"

definition create_error_response :: "json \<Rightarrow> json \<Rightarrow> ustr \<Rightarrow> json \<Rightarrow> envelope" where
  "create_error_response action_group fn error_message details =
     (let error_data =
            [(lit ''error'', JStr error_message)] @
            (if truthy details then [(lit ''details'', details)] else [])
      in \<lparr>messageVersion = lit ''1.0'', actionGroup = action_group, function_name = fn,
          responseState = Some (lit ''FAILURE''), responseBody = JObj error_data\<rparr>)"

section \<open>Summary generator: \<open>generate_summary\<close> and \<open>lambda_handler\<close>\<close>

text \<open>
  The body of the \<open>try\<close> of \<open>generate_summary\<close>. The conversion of \<open>max_length\<close>
  catches \<open>ValueError\<close> and \<open>TypeError\<close> only, so the \<open>OverflowError\<close> of an infinite
  float leaves the body before \<open>text\<close> is looked at. The log line before the dispatch
  evaluates \<open>len(text)\<close>, a \<open>TypeError\<close> for a truthy \<open>bool\<close>, \<open>int\<close> or \<open>float\<close>; a
  list or dict reaches \<open>text.split\<close>, an \<open>AttributeError\<close>. After the membership
  test \<open>summary_type\<close> is one of the three strings, so the \<open>if/elif/elif\<close> chain always
  binds \<open>summary\<close>.
\<close>

definition generate_summary_try :: "pylib \<Rightarrow> pydict \<Rightarrow> json \<Rightarrow> json \<Rightarrow> exn + envelope" where
  "generate_summary_try lib parameters action_group fn =
     (let text = dict_get parameters (lit ''text'') (JStr []);
          summary_type = dict_get parameters (lit ''summary_type'') (JStr (lit ''brief''));
          max_length = dict_get parameters (lit ''max_length'') JNull
      in case (if max_length = JNull then Inr None
               else (case py_int lib max_length of
                       Inr i \<Rightarrow> Inr (Some i)
                     | Inl e \<Rightarrow> if e = ValueError \<or> e = TypeError then Inr None else Inl e)) of
           Inl e \<Rightarrow> Inl e
         | Inr max_length \<Rightarrow>
             if \<not> truthy text then
               Inr (create_error_response action_group fn
                      (lit ''Missing required parameter: text'') JNull)
             else if summary_type \<notin> set [JStr (lit ''brief''), JStr (lit ''detailed''),
                                          JStr (lit ''bullet_points'')] then
               Inr (create_error_response action_group fn (lit ''Invalid summary_type'')
                      (JObj [(lit ''valid_types'',
                              JArr [JStr (lit ''brief''), JStr (lit ''detailed''),
                                    JStr (lit ''bullet_points'')])]))
             else
               (case text of
                  JStr t \<Rightarrow>
                    (case summary_type of
                       JStr st \<Rightarrow>
                         let summary =
                               (if st = lit ''brief'' then generate_brief_summary t max_length
                                else if st = lit ''detailed''
                                then generate_detailed_summary t max_length
                                else generate_bullet_points_summary t max_length);
                             summary_id =
                               lit ''sum_'' @ fmt_05d (py_hash lib (t @ st) mod 100000);
                             result =
                               JObj [(lit ''summary_id'', JStr summary_id),
                                     (lit ''summary'', JStr summary),
                                     (lit ''summary_type'', summary_type),
                                     (lit ''original_length'', JInt (int (length t))),
                                     (lit ''summary_length'', JInt (int (length summary))),
                                     (lit ''compression_ratio'',
                                      JFloat (round_ratio lib (length summary) (length t)))]
                         in Inr (create_success_response action_group fn result)
                     | _ \<Rightarrow> Inl TypeError)
                | JArr _ \<Rightarrow> Inl AttributeError
                | JObj _ \<Rightarrow> Inl AttributeError
                | _ \<Rightarrow> Inl TypeError))"

text \<open>\<open>except Exception as e\<close> of \<open>generate_summary\<close>: nothing in the clause can raise.\<close>

definition generate_summary :: "pylib \<Rightarrow> pydict \<Rightarrow> json \<Rightarrow> json \<Rightarrow> envelope" where
  "generate_summary lib parameters action_group fn =
     (case generate_summary_try lib parameters action_group fn of
        Inr response \<Rightarrow> response
      | Inl e \<Rightarrow>
          create_error_response action_group fn (lit ''Summary generation failed'')
            (JStr (exn_text lib e)))"

text \<open>
  The body of the \<open>try\<close> of the summary generator's \<open>lambda_handler\<close>. The first log line
  prints \<open>json.dumps(event)\<close>, which does not fail on parsed JSON and is not modelled.
\<close>

definition sg_lambda_handler_try :: "pylib \<Rightarrow> json \<Rightarrow> exn + envelope" where
  "sg_lambda_handler_try lib event =
     (case py_get event (lit ''function'') (JStr []) of
        Inl e \<Rightarrow> Inl e
      | Inr fn \<Rightarrow>
          (case py_get event (lit ''actionGroup'') (JStr []) of
             Inl e \<Rightarrow> Inl e
           | Inr action_group \<Rightarrow>
               (case py_get event (lit ''parameters'') (JArr []) of
                  Inl e \<Rightarrow> Inl e
                | Inr parameters_list \<Rightarrow>
                    (case parameters_dict parameters_list of
                       Inl e \<Rightarrow> Inl e
                     | Inr parameters \<Rightarrow>
                         if fn = JStr (lit ''generate_summary'')
                         then Inr (generate_summary lib parameters action_group fn)
                         else Inr (create_error_response action_group fn
                                     (lit ''Unknown function: '' @ py_format lib fn)
                                     (JArr [JStr (lit ''generate_summary'')]))))))"

text \<open>
  \<open>except Exception as e\<close> of a \<open>lambda_handler\<close> (the same clause in both files): it
  reads the event again, so it can itself raise when the event is not a \<open>dict\<close>.
\<close>

definition internal_error_response :: "pylib \<Rightarrow> json \<Rightarrow> exn \<Rightarrow> exn + envelope" where
  "internal_error_response lib event e =
     (case py_get event (lit ''actionGroup'') (JStr []) of
        Inl e' \<Rightarrow> Inl e'
      | Inr action_group \<Rightarrow>
          (case py_get event (lit ''function'') (JStr []) of
             Inl e' \<Rightarrow> Inl e'
           | Inr fn \<Rightarrow>
               Inr (create_error_response action_group fn (lit ''Internal server error'')
                      (JStr (exn_text lib e)))))"

definition sg_lambda_handler :: "pylib \<Rightarrow> json \<Rightarrow> exn + envelope" where
  "sg_lambda_handler lib event =
     (case sg_lambda_handler_try lib event of
        Inr response \<Rightarrow> Inr response
      | Inl e \<Rightarrow> internal_error_response lib event e)"

section \<open>Text processor\<close>

text \<open>The block of \<open>process_text\<close> that decodes the downloaded bytes by the key's
  extension.\<close>

definition read_text_content :: "pylib \<Rightarrow> ustr \<Rightarrow> string \<Rightarrow> exn + ustr" where
  "read_text_content lib s3_key file_content =
     (if endswith (lower s3_key) (lit ''.txt'') then decode_utf8 lib file_content
      else if endswith (lower s3_key) (lit ''.json'') then
        (case decode_utf8 lib file_content of
           Inl e \<Rightarrow> Inl e
         | Inr s \<Rightarrow>
             (case json_loads lib s of
                Inl e \<Rightarrow> Inl e
              | Inr json_content \<Rightarrow> Inr (json_dumps_indent lib json_content)))
      else Inr (decode_utf8_ignore lib file_content))"

text \<open>The block that computes \<open>processed_text\<close> and \<open>metadata\<close>; \<open>None\<close> is the final
  \<open>else\<close>, an invalid processing type.\<close>

definition process_by_type :: "json \<Rightarrow> ustr \<Rightarrow> string \<Rightarrow> ustr \<Rightarrow> (ustr \<times> json) option" where
  "process_by_type processing_type s3_key file_content text_content =
     (let file_type = JStr (lower (last (split_on (of_char CHR ''.'') s3_key))) in
      if processing_type = JStr (lit ''extract'') then
        Some (text_content,
              JObj [(lit ''file_size'', JInt (int (length file_content))),
                    (lit ''character_count'', JInt (int (length text_content))),
                    (lit ''word_count'', JInt (int (length (split_ws text_content)))),
                    (lit ''file_type'', file_type)])
      else if processing_type = JStr (lit ''analyze'') then
        Some (text_content,
              JObj [(lit ''file_size'', JInt (int (length file_content))),
                    (lit ''character_count'', JInt (int (length text_content))),
                    (lit ''word_count'', JInt (int (length (split_ws text_content)))),
                    (lit ''line_count'', JInt (int (length (split_on 10 text_content)))),
                    (lit ''file_type'', file_type),
                    (lit ''sentiment'', JStr (lit ''neutral'')),
                    (lit ''key_topics'',
                     JArr [JStr (lit ''document''), JStr (lit ''text''),
                           JStr (lit ''processing'')])])
      else if processing_type = JStr (lit ''clean'') then
        (let processed_text =
               join [10] (filter (\<lambda>line. line \<noteq> [])
                            (map strip (split_on 10 (strip text_content))))
         in Some (processed_text,
                  JObj [(lit ''file_size'', JInt (int (length file_content))),
                        (lit ''original_character_count'', JInt (int (length text_content))),
                        (lit ''cleaned_character_count'', JInt (int (length processed_text))),
                        (lit ''file_type'', file_type)]))
      else None)"

text \<open>
  The body of the \<open>try\<close> of \<open>process_text\<close>. \<open>s3_key.lower()\<close> needs a string
  (\<open>AttributeError\<close> otherwise), and so does \<open>s3_bucket + s3_key\<close> (\<open>TypeError\<close>).
\<close>

definition process_text_try :: "pylib \<Rightarrow> pydict \<Rightarrow> json \<Rightarrow> json \<Rightarrow> exn + envelope" where
  "process_text_try lib parameters action_group fn =
     (let s3_bucket = dict_get parameters (lit ''s3_bucket'') JNull;
          s3_key = dict_get parameters (lit ''s3_key'') JNull;
          processing_type = dict_get parameters (lit ''processing_type'') (JStr (lit ''extract''))
      in if \<not> truthy s3_bucket \<or> \<not> truthy s3_key then
           Inr (create_error_response action_group fn (lit ''Missing required parameters'')
                  (JObj [(lit ''required'',
                          JArr [JStr (lit ''s3_bucket''), JStr (lit ''s3_key'')])]))
         else
           (case get_object lib s3_bucket s3_key of
              Inl e \<Rightarrow> Inl e
            | Inr file_content \<Rightarrow>
                (case s3_key of
                   JStr key \<Rightarrow>
                     (case read_text_content lib key file_content of
                        Inl e \<Rightarrow> Inl e
                      | Inr text_content \<Rightarrow>
                          (case process_by_type processing_type key file_content
                                  text_content of
                             None \<Rightarrow>
                               Inr (create_error_response action_group fn
                                      (lit ''Invalid processing type'')
                                      (JObj [(lit ''valid_types'',
                                              JArr [JStr (lit ''extract''),
                                                    JStr (lit ''analyze''),
                                                    JStr (lit ''clean'')])]))
                           | Some (processed_text, metadata) \<Rightarrow>
                               (case (s3_bucket, processing_type) of
                                  (JStr bucket, JStr ptype) \<Rightarrow>
                                    let processing_id =
                                          lit ''proc_'' @
                                          fmt_05d (py_hash lib (bucket @ key @ ptype) mod 100000);
                                        result =
                                          JObj [(lit ''processing_id'', JStr processing_id),
                                                (lit ''status'', JStr (lit ''completed'')),
                                                (lit ''extracted_text'',
                                                 JStr (take 1000 processed_text)),
                                                (lit ''metadata'', metadata),
                                                (lit ''processing_type'', processing_type),
                                                (lit ''source'',
                                                 JObj [(lit ''bucket'', s3_bucket),
                                                       (lit ''key'', s3_key)])]
                                    in Inr (create_success_response action_group fn result)
                                | _ \<Rightarrow> Inl TypeError)))
                 | _ \<Rightarrow> Inl AttributeError)))"

definition process_text :: "pylib \<Rightarrow> pydict \<Rightarrow> json \<Rightarrow> json \<Rightarrow> envelope" where
  "process_text lib parameters action_group fn =
     (case process_text_try lib parameters action_group fn of
        Inr response \<Rightarrow> response
      | Inl e \<Rightarrow>
          create_error_response action_group fn (lit ''Text processing failed'')
            (JStr (exn_text lib e)))"

definition tp_lambda_handler_try :: "pylib \<Rightarrow> json \<Rightarrow> exn + envelope" where
  "tp_lambda_handler_try lib event =
     (case py_get event (lit ''function'') (JStr []) of
        Inl e \<Rightarrow> Inl e
      | Inr fn \<Rightarrow>
          (case py_get event (lit ''actionGroup'') (JStr []) of
             Inl e \<Rightarrow> Inl e
           | Inr action_group \<Rightarrow>
               (case py_get event (lit ''parameters'') (JArr []) of
                  Inl e \<Rightarrow> Inl e
                | Inr parameters_list \<Rightarrow>
                    (case parameters_dict parameters_list of
                       Inl e \<Rightarrow> Inl e
                     | Inr parameters \<Rightarrow>
                         if fn = JStr (lit ''process_text'')
                         then Inr (process_text lib parameters action_group fn)
                         else Inr (create_error_response action_group fn
                                     (lit ''Unknown function: '' @ py_format lib fn)
                                     (JArr [JStr (lit ''process_text'')]))))))"

definition tp_lambda_handler :: "pylib \<Rightarrow> json \<Rightarrow> exn + envelope" where
  "tp_lambda_handler lib event =
     (case tp_lambda_handler_try lib event of
        Inr response \<Rightarrow> Inr response
      | Inl e \<Rightarrow> internal_error_response lib event e)"

section \<open>Order lookup\<close>

text \<open>The flat response: \<open>body\<close> is the object handed to \<open>json.dumps\<close>.\<close>

record http_response =
  statusCode :: nat
  body :: json

definition mock_orders :: "(ustr \<times> json) list" where
  "mock_orders =
     [(lit ''12345'',
       JObj [(lit ''order_id'', JStr (lit ''12345'')),
             (lit ''customer_name'', JStr (lit ''John Doe'')),
             (lit ''status'', JStr (lit ''shipped'')),
             (lit ''items'',
              JArr [JObj [(lit ''product'', JStr (lit ''Widget A'')),
                          (lit ''quantity'', JInt 2), (lit ''price'', JFloat 29.99)],
                    JObj [(lit ''product'', JStr (lit ''Widget B'')),
                          (lit ''quantity'', JInt 1), (lit ''price'', JFloat 45.50)]]),
             (lit ''total'', JFloat 105.48),
             (lit ''tracking_number'', JStr (lit ''TRK789456123''))]),
      (lit ''67890'',
       JObj [(lit ''order_id'', JStr (lit ''67890'')),
             (lit ''customer_name'', JStr (lit ''Jane Smith'')),
             (lit ''status'', JStr (lit ''processing'')),
             (lit ''items'',
              JArr [JObj [(lit ''product'', JStr (lit ''Gadget X'')),
                          (lit ''quantity'', JInt 1), (lit ''price'', JFloat 199.99)]]),
             (lit ''total'', JFloat 199.99),
             (lit ''tracking_number'', JNull)])]"

text \<open>\<open>mock_orders.get(order_id, {...})\<close>: the argument is hashed (\<open>TypeError\<close> for a list
  or dict), and only a string equals one of the two string keys.\<close>

definition lookup_order :: "json \<Rightarrow> exn + json" where
  "lookup_order order_id =
     (let not_found =
            JObj [(lit ''order_id'', order_id),
                  (lit ''status'', JStr (lit ''not_found'')),
                  (lit ''message'', JStr (lit ''Order not found in system''))]
      in case dict_key order_id of
           Inl e \<Rightarrow> Inl e
         | Inr (KStr s) \<Rightarrow>
             Inr (case map_of mock_orders s of None \<Rightarrow> not_found | Some order \<Rightarrow> order)
         | Inr _ \<Rightarrow> Inr not_found)"

text \<open>
  The loop of \<open>handler\<close> that takes the value of the first parameter named \<open>order_id\<close>:
  \<^verbatim>\<open>for param in parameters:
      if param.get('name') == 'order_id':
          order_id = param.get('value')
          break\<close>
\<close>

fun find_order_id :: "json list \<Rightarrow> exn + json" where
  "find_order_id [] = Inr JNull"
| "find_order_id (param # rest) =
     (case py_get param (lit ''name'') JNull of
        Inl e \<Rightarrow> Inl e
      | Inr n \<Rightarrow>
          if n = JStr (lit ''order_id'') then py_get param (lit ''value'') JNull
          else find_order_id rest)"

definition handler_try :: "pylib \<Rightarrow> json \<Rightarrow> exn + http_response" where
  "handler_try lib event =
     (case py_get event (lit ''inputText'') (JStr []) of
        Inl e \<Rightarrow> Inl e
      | Inr input_text \<Rightarrow>
          (case py_get event (lit ''parameters'') (JArr []) of
             Inl e \<Rightarrow> Inl e
           | Inr parameters \<Rightarrow>
               (case py_iter parameters of
                  Inl e \<Rightarrow> Inl e
                | Inr params \<Rightarrow>
                    (case find_order_id params of
                       Inl e \<Rightarrow> Inl e
                     | Inr order_id \<Rightarrow>
                         if \<not> truthy order_id then
                           Inr \<lparr>statusCode = 400,
                                body = JObj [(lit ''error'',
                                              JStr (lit ''Missing required parameter: order_id''))]\<rparr>
                         else
                           (case lookup_order order_id of
                              Inl e \<Rightarrow> Inl e
                            | Inr order_data \<Rightarrow>
                                Inr \<lparr>statusCode = 200,
                                     body = JObj [(lit ''order'', order_data),
                                                  (lit ''message'',
                                                   JStr (lit ''Successfully retrieved order '' @
                                                         py_format lib order_id))]\<rparr>)))))"

text \<open>\<open>except Exception\<close> of \<open>handler\<close> returns a constant and cannot raise.\<close>

definition handler :: "pylib \<Rightarrow> json \<Rightarrow> exn + http_response" where
  "handler lib event =
     (case handler_try lib event of
        Inr response \<Rightarrow> Inr response
      | Inl e \<Rightarrow>
          Inr \<lparr>statusCode = 500,
               body = JObj [(lit ''error'', JStr (lit ''Internal server error''))]\<rparr>)"

section \<open>Product search\<close>

text \<open>The request, the product and the response as the pydantic models declare them; a
  \<open>float\<close> is the real number it denotes.\<close>

record ProductSearchRequest =
  query :: ustr
  category :: "ustr option"
  min_price :: "real option"
  max_price :: "real option"
  limit :: "int option"

record Product =
  product_id :: ustr
  product_name :: ustr
  description :: ustr
  price :: real
  product_category :: ustr
  in_stock :: bool

record ProductSearchResponse =
  products :: "Product list"
  total_count :: nat
  response_query :: ustr

definition MOCK_PRODUCTS :: "Product list" where
  "MOCK_PRODUCTS =
     [\<lparr>product_id = lit ''1'', product_name = lit ''Wireless Headphones'',
       description = lit ''High-quality wireless headphones'', price = 99.99,
       product_category = lit ''Electronics'', in_stock = True\<rparr>,
      \<lparr>product_id = lit ''2'', product_name = lit ''Coffee Maker'',
       description = lit ''Automatic drip coffee maker'', price = 79.99,
       product_category = lit ''Kitchen'', in_stock = True\<rparr>,
      \<lparr>product_id = lit ''3'', product_name = lit ''Running Shoes'',
       description = lit ''Comfortable running shoes'', price = 129.99,
       product_category = lit ''Sports'', in_stock = False\<rparr>,
      \<lparr>product_id = lit ''4'', product_name = lit ''Laptop Stand'',
       description = lit ''Adjustable laptop stand'', price = 45.99,
       product_category = lit ''Office'', in_stock = True\<rparr>,
      \<lparr>product_id = lit ''5'', product_name = lit ''Smartphone'',
       description = lit ''Latest model smartphone'', price = 699.99,
       product_category = lit ''Electronics'', in_stock = True\<rparr>]"

text \<open>The \<open>for\<close> loop of \<open>search_products\<close>; each \<open>continue\<close> skips the product.\<close>

fun filter_products :: "ProductSearchRequest \<Rightarrow> Product list \<Rightarrow> Product list" where
  "filter_products request [] = []"
| "filter_products request (product # rest) =
     (if \<not> contains (lower (product_name product)) (lower (query request)) \<and>
         \<not> contains (lower (description product)) (lower (query request))
      then filter_products request rest
      else if (case category request of
                 None \<Rightarrow> False
               | Some c \<Rightarrow> c \<noteq> [] \<and> lower (product_category product) \<noteq> lower c)
      then filter_products request rest
      else if (case min_price request of
                 None \<Rightarrow> False
               | Some lo \<Rightarrow> lo \<noteq> 0 \<and> price product < lo)
      then filter_products request rest
      else if (case max_price request of
                 None \<Rightarrow> False
               | Some hi \<Rightarrow> hi \<noteq> 0 \<and> price product > hi)
      then filter_products request rest
      else product # filter_products request rest)"

definition search_products :: "ProductSearchRequest \<Rightarrow> ProductSearchResponse" where
  "search_products request =
     (let filtered_products = filter_products request MOCK_PRODUCTS;
          limited_products =
            (case limit request of
               None \<Rightarrow> filtered_products
             | Some n \<Rightarrow> slice_to filtered_products n)
      in \<lparr>products = limited_products, total_count = length filtered_products,
          response_query = query request\<rparr>)"

section \<open>Invocations\<close>

text \<open>
  The data model of an invocation: an event is a \<open>dict\<close> whose \<open>parameters\<close>, when
  present, is a list of \<open>{name, value}\<close> objects with a string for a name. The name and
  the value of such an object are read with the defaults of the handlers' loop.
\<close>

fun is_parameter :: "json \<Rightarrow> bool" where
  "is_parameter (JObj kvs) =
     (case map_of kvs (lit ''name'') of
        None \<Rightarrow> True
      | Some (JStr n) \<Rightarrow> True
      | Some _ \<Rightarrow> False)"
| "is_parameter _ = False"

fun parameter_name :: "json \<Rightarrow> ustr" where
  "parameter_name (JObj kvs) = (case get_default kvs (lit ''name'') (JStr []) of JStr n \<Rightarrow> n | _ \<Rightarrow> [])"
| "parameter_name _ = []"

fun parameter_value :: "json \<Rightarrow> json" where
  "parameter_value (JObj kvs) = get_default kvs (lit ''value'') (JStr [])"
| "parameter_value _ = JStr []"

text \<open>One step of the fold that the specification describes: the entry's value is
  written under the entry's name, over whatever was there.\<close>

definition write_parameter :: "json \<Rightarrow> pydict \<Rightarrow> pydict" where
  "write_parameter p m = m(KStr (parameter_name p) \<mapsto> parameter_value p)"

definition is_invocation :: "(ustr \<times> json) list \<Rightarrow> bool" where
  "is_invocation kvs =
     (case get_default kvs (lit ''parameters'') (JArr []) of
        JArr ps \<Rightarrow> list_all is_parameter ps
      | _ \<Rightarrow> False)"

text \<open>One instance of the library for worked examples: the object store has no object,
  and every exception prints as \<open>error\<close>.\<close>

definition example_lib :: pylib where
  "example_lib =
     \<lparr>py_hash = (\<lambda>s. int (length s)),
      int_of_str = (\<lambda>s. None),
      str_of = (\<lambda>v. lit ''?''),
      exn_text = (\<lambda>e. lit ''error''),
      round_ratio = (\<lambda>a b. real a / real b),
      get_object = (\<lambda>bucket k. Inl (Upstream (lit ''NoSuchKey''))),
      decode_utf8 = (\<lambda>bs. Inr (map of_char bs)),
      decode_utf8_ignore = (\<lambda>bs. map of_char bs),
      json_loads = (\<lambda>s. Inl ValueError),
      json_dumps_indent = (\<lambda>j. [])\<rparr>"

section \<open>The bullet points of a text\<close>

text \<open>The list \<open>bullet_points\<close> that \<open>generate_bullet_points_summary\<close> builds from the
  first five sentences, named so that properties can speak about it.\<close>

definition bullet_points_of :: "ustr \<Rightarrow> ustr list" where
  "bullet_points_of text =
     map (\<lambda>sentence.
            bullet @ (if length sentence > 100 then take 97 sentence @ lit ''...''
                      else sentence))
         (take (min 5 (length (sentences_of text))) (sentences_of text))"

text \<open>The characters a list of points takes when each is followed by a separator.\<close>

fun points_length :: "ustr list \<Rightarrow> int" where
  "points_length [] = 0"
| "points_length (p # ps) = int (length p) + 1 + points_length ps"

section \<open>Evaluation on concrete inputs\<close>

text \<open>The definitions that the simplifier unfolds to run the summaries and the handlers
  on a concrete input.\<close>

lemmas summary_eval =
  generate_brief_summary_def generate_detailed_summary_def generate_bullet_points_summary_def
  sentences_of_def split_on_def strip_def is_space_def slice_to_def bullet_def

lemmas handler_eval =
  sg_lambda_handler_try_def tp_lambda_handler_try_def handler_try_def
  generate_summary_try_def process_text_try_def parameters_dict_def get_default_def
  dict_get_def example_lib_def

section \<open>Properties of the summaries\<close>

text \<open>
  C7: for the text \<open>"A. B. C."\<close> and no \<open>max_length\<close> the sentences, obtained by splitting
  on \<open>'.'\<close>, stripping whitespace and discarding empty fragments, are \<open>A\<close>, \<open>B\<close> and
  \<open>C\<close>, and the brief summary is the first and the last of them joined by \<open>". "\<close>:
  \<open>"A. C"\<close>.
\<close>

theorem brief_summary_A_B_C:
  "sentences_of (lit ''A. B. C.'') = [lit ''A'', lit ''B'', lit ''C''] \<and>
   generate_brief_summary (lit ''A. B. C.'') None = lit ''A. C''"
  by (simp add: generate_brief_summary_def sentences_of_def split_on_def strip_def is_space_def)

lemma split_where_none: "\<forall>x\<in>set xs. \<not> P x \<Longrightarrow> split_where P xs = [xs]"
  by (induction xs) auto

lemma sentences_of_single:
  assumes "of_char CHR ''.'' \<notin> set text" and "strip text \<noteq> []"
  shows "sentences_of text = [strip text]"
proof -
  have "split_on (of_char CHR ''.'') text = [text]"
    unfolding split_on_def using assms(1) by (intro split_where_none) auto
  then show ?thesis using assms(2) by (simp add: sentences_of_def)
qed

lemma dropWhile_hd_id: "xs \<noteq> [] \<Longrightarrow> \<not> P (hd xs) \<Longrightarrow> dropWhile P xs = xs"
  by (cases xs) auto

lemma strip_id:
  assumes "text \<noteq> []" and "\<not> is_space (hd text)" and "\<not> is_space (last text)"
  shows "strip text = text"
proof -
  have "dropWhile is_space text = text" using assms by (simp add: dropWhile_hd_id)
  moreover have "dropWhile is_space (rev text) = rev text"
    using assms by (intro dropWhile_hd_id) (auto simp: hd_rev)
  ultimately show ?thesis by (simp add: strip_def)
qed

text \<open>
  C6, as the code has it: for every text without a period that is not blank, with no
  \<open>max_length\<close>, the brief summary is the text stripped of surrounding whitespace and the
  detailed summary is that sentence followed by a period; the stripped text is the text
  itself when it neither starts nor ends with whitespace.
\<close>

theorem single_sentence_summaries:
  assumes "of_char CHR ''.'' \<notin> set text" and "strip text \<noteq> []"
  shows "generate_brief_summary text None = strip text \<and>
         generate_detailed_summary text None = strip text @ lit ''.'' \<and>
         (\<not> is_space (hd text) \<and> \<not> is_space (last text) \<longrightarrow> strip text = text)"
proof -
  have s: "sentences_of text = [strip text]" using assms by (rule sentences_of_single)
  have ne: "text \<noteq> []" using assms(2) by (auto simp: strip_def)
  have "generate_brief_summary text None = strip text"
    by (simp add: generate_brief_summary_def s)
  moreover have "generate_detailed_summary text None = strip text @ lit ''.''"
    by (simp add: generate_detailed_summary_def s)
  ultimately show ?thesis using strip_id [OF ne] by blast
qed

theorem single_sentence_summaries_witness:
  "of_char CHR ''.'' \<notin> set (lit ''Hello world'') \<and> strip (lit ''Hello world'') \<noteq> [] \<and>
   \<not> is_space (hd (lit ''Hello world'')) \<and> \<not> is_space (last (lit ''Hello world'')) \<and>
   generate_brief_summary (lit ''Hello world'') None = lit ''Hello world'' \<and>
   generate_detailed_summary (lit ''Hello world'') None = lit ''Hello world.''"
proof -
  have h1: "of_char CHR ''.'' \<notin> set (lit ''Hello world'')" by simp
  have h2: "strip (lit ''Hello world'') \<noteq> []" by (simp add: strip_def is_space_def)
  have h3: "\<not> is_space (hd (lit ''Hello world'')) \<and> \<not> is_space (last (lit ''Hello world''))"
    by (simp add: is_space_def)
  from single_sentence_summaries [OF h1 h2] h3
  have "generate_brief_summary (lit ''Hello world'') None = lit ''Hello world'' \<and>
        generate_detailed_summary (lit ''Hello world'') None = lit ''Hello world'' @ lit ''.''"
    by metis
  then show ?thesis using h1 h2 h3 by simp
qed

text \<open>
  C6 as stated fails for the detailed summary: the single sentence \<open>"Hello"\<close> comes back
  as \<open>"Hello."\<close>, because \<open>generate_detailed_summary\<close> appends a period to the joined
  sentences.
\<close>

theorem detailed_single_sentence_counterexample:
  "sentences_of (lit ''Hello'') = [lit ''Hello''] \<and>
   generate_brief_summary (lit ''Hello'') None = lit ''Hello'' \<and>
   generate_detailed_summary (lit ''Hello'') None = lit ''Hello.'' \<and>
   generate_detailed_summary (lit ''Hello'') None \<noteq> lit ''Hello''"
  by (simp add: generate_brief_summary_def generate_detailed_summary_def sentences_of_def
        split_on_def strip_def is_space_def)

lemma ellipsis_cut:
  assumes "3 \<le> m" and "m < int (length s)"
  shows "slice_to s (m - 3) @ lit ''...'' = take (nat (m - 3)) s @ lit ''...''"
    and "int (length (slice_to s (m - 3) @ lit ''...'')) = m"
  using assms by (auto simp: slice_to_def)

lemma points_length_append: "points_length (xs @ ys) = points_length xs + points_length ys"
  by (induction xs) auto

lemma length_join_le: "int (length (join [c] ps)) \<le> points_length ps"
proof (induction ps)
  case Nil
  then show ?case by simp
next
  case (Cons p ps)
  then show ?case by (cases ps) auto
qed

lemma truncate_points_longest:
  "points_length acc \<le> m - 3 \<Longrightarrow>
   \<exists>k\<le>length ps.
     truncate_points m ps (points_length acc) acc = acc @ take k ps \<and>
     points_length (acc @ take k ps) \<le> m - 3 \<and>
     (k < length ps \<longrightarrow> m - 3 < points_length (acc @ take (Suc k) ps))"
proof (induction ps arbitrary: acc)
  case Nil
  then show ?case by simp
next
  case (Cons p ps)
  show ?case
  proof (cases "points_length acc + int (length p) + 1 \<le> m - 3")
    case True
    then have fits: "points_length (acc @ [p]) \<le> m - 3" by (simp add: points_length_append)
    have len: "points_length (acc @ [p]) = points_length acc + int (length p) + 1"
      by (simp add: points_length_append)
    from Cons.IH [OF fits] obtain k where k: "k \<le> length ps"
      "truncate_points m ps (points_length (acc @ [p])) (acc @ [p]) = (acc @ [p]) @ take k ps"
      "points_length ((acc @ [p]) @ take k ps) \<le> m - 3"
      "k < length ps \<longrightarrow> m - 3 < points_length ((acc @ [p]) @ take (Suc k) ps)"
      by blast
    have "truncate_points m (p # ps) (points_length acc) acc = acc @ take (Suc k) (p # ps)"
      using True k(2) len by simp
    moreover have "points_length (acc @ take (Suc k) (p # ps)) \<le> m - 3"
      using k(3) by simp
    moreover have "Suc k < length (p # ps) \<longrightarrow>
                     m - 3 < points_length (acc @ take (Suc (Suc k)) (p # ps))"
      using k(4) by simp
    moreover have "Suc k \<le> length (p # ps)" using k(1) by simp
    ultimately show ?thesis by blast
  next
    case False
    have "truncate_points m (p # ps) (points_length acc) acc = acc @ take 0 (p # ps)"
      using False by simp
    moreover have "points_length (acc @ take 0 (p # ps)) \<le> m - 3"
      using Cons.prems by simp
    moreover have "m - 3 < points_length (acc @ take (Suc 0) (p # ps))"
      using False by (simp add: points_length_append)
    ultimately show ?thesis by blast
  qed
qed

lemma join_take_prefix: "\<exists>rest. join sep ps = join sep (take k ps) @ rest"
proof (induction ps arbitrary: k)
  case Nil
  then show ?case by simp
next
  case (Cons x xs)
  show ?case
  proof (cases k)
    case 0
    then show ?thesis by simp
  next
    case (Suc j)
    from Cons.IH [of j] obtain rest where r: "join sep xs = join sep (take j xs) @ rest"
      by blast
    show ?thesis
    proof (cases xs)
      case Nil
      then show ?thesis using Suc by simp
    next
      case (Cons y ys)
      show ?thesis
      proof (cases j)
        case 0
        then show ?thesis using Suc Cons by simp
      next
        case (Suc i)
        then have "take k (x # xs) = x # y # take i ys" using \<open>k = Suc j\<close> Cons by simp
        moreover have "join sep (y # ys) = join sep (y # take i ys) @ rest"
          using r Cons Suc by simp
        ultimately show ?thesis using Cons by simp
      qed
    qed
  qed
qed

text \<open>
  C4, as the code has it: for every text with at least one sentence and every
  \<open>max_length\<close> of at least 3 that is smaller than the length of the summary without
  \<open>max_length\<close>, the brief and the detailed summary are the first \<open>max_length - 3\<close>
  characters of that summary followed by \<open>"..."\<close>, of length exactly \<open>max_length\<close>. The
  bullet-point summary without \<open>max_length\<close> is the bullet points joined by newlines;
  with \<open>max_length\<close> it is the first \<open>k\<close> bullet points joined by newlines and followed
  by \<open>"..."\<close>, where \<open>k\<close> is the largest number of leading bullet points whose lengths,
  each counted with one more character, sum to at most \<open>max_length - 3\<close> (the next bullet
  point would exceed it, and \<open>k\<close> may be 0); it is a prefix of the summary without
  \<open>max_length\<close> followed by \<open>"..."\<close>, and its length is at most \<open>max_length\<close>.
\<close>

theorem summary_truncation:
  assumes "sentences_of text \<noteq> []" and "3 \<le> m"
  shows "(m < int (length (generate_brief_summary text None)) \<longrightarrow>
            generate_brief_summary text (Some m) =
              take (nat (m - 3)) (generate_brief_summary text None) @ lit ''...'' \<and>
            int (length (generate_brief_summary text (Some m))) = m) \<and>
         (m < int (length (generate_detailed_summary text None)) \<longrightarrow>
            generate_detailed_summary text (Some m) =
              take (nat (m - 3)) (generate_detailed_summary text None) @ lit ''...'' \<and>
            int (length (generate_detailed_summary text (Some m))) = m) \<and>
         (m < int (length (generate_bullet_points_summary text None)) \<longrightarrow>
            generate_bullet_points_summary text None = join [10] (bullet_points_of text) \<and>
            (\<exists>k<length (bullet_points_of text).
               generate_bullet_points_summary text (Some m) =
                 join [10] (take k (bullet_points_of text)) @ lit ''...'' \<and>
               points_length (take k (bullet_points_of text)) \<le> m - 3 \<and>
               m - 3 < points_length (take (Suc k) (bullet_points_of text)) \<and>
               (\<exists>rest. generate_bullet_points_summary text None =
                         join [10] (take k (bullet_points_of text)) @ rest)) \<and>
            int (length (generate_bullet_points_summary text (Some m))) \<le> m)"
proof (intro conjI impI)
  assume lt: "m < int (length (generate_brief_summary text None))"
  let ?s = "generate_brief_summary text None"
  have eq: "generate_brief_summary text (Some m) = slice_to ?s (m - 3) @ lit ''...''"
    using assms lt by (simp add: generate_brief_summary_def Let_def)
  show "generate_brief_summary text (Some m) = take (nat (m - 3)) ?s @ lit ''...''"
    using eq ellipsis_cut(1) [OF assms(2) lt] by simp
  show "int (length (generate_brief_summary text (Some m))) = m"
    using eq ellipsis_cut(2) [OF assms(2) lt] by simp
next
  assume lt: "m < int (length (generate_detailed_summary text None))"
  let ?s = "generate_detailed_summary text None"
  have eq: "generate_detailed_summary text (Some m) = slice_to ?s (m - 3) @ lit ''...''"
    using assms lt by (simp add: generate_detailed_summary_def Let_def)
  show "generate_detailed_summary text (Some m) = take (nat (m - 3)) ?s @ lit ''...''"
    using eq ellipsis_cut(1) [OF assms(2) lt] by simp
  show "int (length (generate_detailed_summary text (Some m))) = m"
    using eq ellipsis_cut(2) [OF assms(2) lt] by simp
next
  assume lt: "m < int (length (generate_bullet_points_summary text None))"
  define points where "points = bullet_points_of text"
  show nat_eq: "generate_bullet_points_summary text None = join [10] (bullet_points_of text)"
    using assms(1) by (simp add: generate_bullet_points_summary_def Let_def bullet_points_of_def)
  have eq: "generate_bullet_points_summary text (Some m) =
              join [10] (truncate_points m points 0 []) @ lit ''...''"
    using assms lt
    by (simp add: generate_bullet_points_summary_def Let_def points_def bullet_points_of_def)
  have "points_length [] \<le> m - 3" using assms(2) by simp
  from truncate_points_longest [OF this, of points]
  obtain k where k: "k \<le> length points"
    "truncate_points m points 0 [] = take k points"
    "points_length (take k points) \<le> m - 3"
    "k < length points \<longrightarrow> m - 3 < points_length (take (Suc k) points)"
    by auto
  have "int (length (join [10] points)) \<le> points_length points" by (rule length_join_le)
  then have "m < points_length points" using lt nat_eq by (simp add: points_def)
  then have "k \<noteq> length points" using k(3) by auto
  then have klt: "k < length points" using k(1) by simp
  obtain rest where rest: "join [10] points = join [10] (take k points) @ rest"
    using join_take_prefix by blast
  show "\<exists>k<length (bullet_points_of text).
          generate_bullet_points_summary text (Some m) =
            join [10] (take k (bullet_points_of text)) @ lit ''...'' \<and>
          points_length (take k (bullet_points_of text)) \<le> m - 3 \<and>
          m - 3 < points_length (take (Suc k) (bullet_points_of text)) \<and>
          (\<exists>rest. generate_bullet_points_summary text None =
                    join [10] (take k (bullet_points_of text)) @ rest)"
    using klt eq k(2) k(3) k(4) rest nat_eq unfolding points_def by metis
  have "int (length (join [10] (take k points))) \<le> m - 3"
    using length_join_le [of 10 "take k points"] k(3) by simp
  then show "int (length (generate_bullet_points_summary text (Some m))) \<le> m"
    using eq k(2) by simp
qed


theorem summary_truncation_witness:
  "sentences_of (lit ''Alpha beta. Gamma. Delta epsilon zeta'') \<noteq> [] \<and> (3::int) \<le> 28 \<and>
   28 < int (length (generate_brief_summary (lit ''Alpha beta. Gamma. Delta epsilon zeta'') None)) \<and>
   28 < int (length (generate_detailed_summary (lit ''Alpha beta. Gamma. Delta epsilon zeta'') None)) \<and>
   28 < int (length (generate_bullet_points_summary
                       (lit ''Alpha beta. Gamma. Delta epsilon zeta'') None)) \<and>
   generate_brief_summary (lit ''Alpha beta. Gamma. Delta epsilon zeta'') (Some 28) =
     lit ''Alpha beta. Delta epsilon...'' \<and>
   int (length (generate_brief_summary
                  (lit ''Alpha beta. Gamma. Delta epsilon zeta'') (Some 28))) = 28 \<and>
   int (length (generate_detailed_summary
                  (lit ''Alpha beta. Gamma. Delta epsilon zeta'') (Some 28))) = 28 \<and>
   int (length (generate_bullet_points_summary
                  (lit ''Alpha beta. Gamma. Delta epsilon zeta'') (Some 28))) \<le> 28 \<and>
   generate_bullet_points_summary (lit ''Alpha beta. Gamma. Delta epsilon zeta'') (Some 28) =
     bullet @ lit ''Alpha beta'' @ [10] @ bullet @ lit ''Gamma'' @ lit ''...'' \<and>
   points_length (take 2 (bullet_points_of (lit ''Alpha beta. Gamma. Delta epsilon zeta'')))
     \<le> 28 - 3 \<and>
   28 - 3 < points_length
              (take 3 (bullet_points_of (lit ''Alpha beta. Gamma. Delta epsilon zeta'')))"
proof -
  let ?t = "lit ''Alpha beta. Gamma. Delta epsilon zeta''"
  have h1: "sentences_of ?t \<noteq> []" by (simp add: summary_eval)
  have h2: "(3::int) \<le> 28" by simp
  have b: "generate_brief_summary ?t None = lit ''Alpha beta. Delta epsilon zeta''"
    by (simp add: summary_eval)
  have l1: "28 < int (length (generate_brief_summary ?t None))" using b by simp
  have l2: "28 < int (length (generate_detailed_summary ?t None))" by (simp add: summary_eval)
  have l3: "28 < int (length (generate_bullet_points_summary ?t None))"
    by (simp add: summary_eval)
  have v: "generate_bullet_points_summary ?t (Some 28) =
             bullet @ lit ''Alpha beta'' @ [10] @ bullet @ lit ''Gamma'' @ lit ''...''"
    by (simp add: summary_eval)
  have p2: "points_length (take 2 (bullet_points_of ?t)) \<le> 28 - 3"
    by (simp add: bullet_points_of_def summary_eval)
  have p3: "28 - 3 < points_length (take 3 (bullet_points_of ?t))"
    by (simp add: bullet_points_of_def summary_eval)
  from summary_truncation [OF h1 h2] l1 l2 l3
  have "generate_brief_summary ?t (Some 28) =
          take (nat (28 - 3)) (generate_brief_summary ?t None) @ lit ''...'' \<and>
        int (length (generate_brief_summary ?t (Some 28))) = 28 \<and>
        int (length (generate_detailed_summary ?t (Some 28))) = 28 \<and>
        int (length (generate_bullet_points_summary ?t (Some 28))) \<le> 28"
    by blast
  then show ?thesis using h1 l1 l2 l3 b v p2 p3 by simp
qed

text \<open>
  A bullet point is kept only when its length plus one fits into \<open>max_length - 3\<close>: for
  \<open>"ab. cd"\<close> and \<open>max_length = 9\<close> the first bullet point has 6 characters and is
  dropped, although it would fit together with the three dots.
\<close>

lemma bullet_point_dropped_at_the_limit:
  "generate_bullet_points_summary (lit ''ab. cd'') (Some 9) = lit ''...'' \<and>
   length (hd (bullet_points_of (lit ''ab. cd''))) = 6"
  by (simp add: bullet_points_of_def summary_eval)

text \<open>
  C4 as stated fails: \<open>max_length = 0\<close> counts as absent and nothing is cut; with
  \<open>max_length = 2\<close> the brief summary of \<open>"Hello world"\<close> has 13 characters and the
  bullet-point summary 3; a text without sentences gives the 24 characters of the
  placeholder whatever \<open>max_length\<close> is.
\<close>

theorem summary_truncation_counterexample:
  "0 < int (length (generate_brief_summary (lit ''Hello world'') None)) \<and>
   generate_brief_summary (lit ''Hello world'') (Some 0) = lit ''Hello world'' \<and>
   2 < int (length (generate_brief_summary (lit ''Hello world'') None)) \<and>
   generate_brief_summary (lit ''Hello world'') (Some 2) = lit ''Hello worl...'' \<and>
   \<not> int (length (generate_brief_summary (lit ''Hello world'') (Some 2))) \<le> 2 \<and>
   5 < int (length (generate_detailed_summary (lit ''.'') None)) \<and>
   generate_detailed_summary (lit ''.'') (Some 5) = lit ''No content to summarize.'' \<and>
   2 < int (length (generate_bullet_points_summary (lit ''Hello world'') None)) \<and>
   generate_bullet_points_summary (lit ''Hello world'') (Some 2) = lit ''...'' \<and>
   \<not> int (length (generate_bullet_points_summary (lit ''Hello world'') (Some 2))) \<le> 2"
  by (simp add: summary_eval)

section \<open>Properties of the product search\<close>

text \<open>
  C5, as the code has it: the search for \<open>"phone"\<close> with no category, no price filter
  and the default limit of 10 returns two products of the mock catalog, in catalog order:
  \<open>Wireless Headphones\<close> (its name contains \<open>phone\<close>) and \<open>Smartphone\<close>, with
  \<open>total_count = 2\<close>.
\<close>

theorem search_phone:
  "search_products \<lparr>query = lit ''phone'', category = None, min_price = None,
                    max_price = None, limit = Some 10\<rparr> =
   \<lparr>products = [MOCK_PRODUCTS ! 0, MOCK_PRODUCTS ! 4], total_count = 2,
    response_query = lit ''phone''\<rparr> \<and>
   product_name (MOCK_PRODUCTS ! 0) = lit ''Wireless Headphones'' \<and>
   product_name (MOCK_PRODUCTS ! 4) = lit ''Smartphone''"
  by (simp add: search_products_def MOCK_PRODUCTS_def lower_def slice_to_def)

text \<open>C5 as stated fails: the result is not the single product \<open>Smartphone\<close> and
  \<open>total_count\<close> is not 1.\<close>

theorem search_phone_counterexample:
  "map product_name
     (products (search_products \<lparr>query = lit ''phone'', category = None, min_price = None,
                                 max_price = None, limit = Some 10\<rparr>)) \<noteq> [lit ''Smartphone''] \<and>
   total_count (search_products \<lparr>query = lit ''phone'', category = None, min_price = None,
                                 max_price = None, limit = Some 10\<rparr>) \<noteq> 1"
  by (simp add: search_products_def MOCK_PRODUCTS_def lower_def slice_to_def)

lemma filter_products_max_price_zero:
  "filter_products (request\<lparr>max_price := Some 0\<rparr>) ps =
   filter_products (request\<lparr>max_price := None\<rparr>) ps"
  by (induction ps) simp_all

lemma filter_products_min_price_zero:
  "filter_products (request\<lparr>min_price := Some 0\<rparr>) ps =
   filter_products (request\<lparr>min_price := None\<rparr>) ps"
  by (induction ps) simp_all

text \<open>
  C10: a \<open>max_price\<close> or a \<open>min_price\<close> of 0 is falsy, so its filter is skipped: for
  every request the response with the price bound set to 0 is the response with that
  bound absent.
\<close>

theorem zero_price_filter_is_absent:
  "search_products (request\<lparr>max_price := Some 0\<rparr>) =
     search_products (request\<lparr>max_price := None\<rparr>) \<and>
   search_products (request\<lparr>min_price := Some 0\<rparr>) =
     search_products (request\<lparr>min_price := None\<rparr>)"
  by (simp add: search_products_def filter_products_max_price_zero
        filter_products_min_price_zero)

section \<open>Properties of the handlers\<close>

lemma parameters_loop_Cons:
  assumes "is_parameter p"
  shows "parameters_loop (p # ps) acc = parameters_loop ps (write_parameter p acc)"
  using assms
  by (cases p) (simp_all add: get_default_def write_parameter_def split: option.splits json.splits)

lemma parameters_loop_fold:
  "list_all is_parameter ps \<Longrightarrow> parameters_loop ps acc = Inr (fold write_parameter ps acc)"
proof (induction ps arbitrary: acc)
  case Nil
  then show ?case by simp
next
  case (Cons p ps)
  then have p: "is_parameter p" and ps: "list_all is_parameter ps" by simp_all
  show ?case
    using Cons.IH [OF ps] by (simp only: parameters_loop_Cons [OF p] fold_simps)
qed

lemma write_parameter_apply:
  "write_parameter p m (KStr k) =
     (if parameter_name p = k then Some (parameter_value p) else m (KStr k))"
  by (auto simp: write_parameter_def)

lemma fold_last_write:
  "fold write_parameter ps acc (KStr k) =
     (case filter (\<lambda>p. parameter_name p = k) ps of
        [] \<Rightarrow> acc (KStr k)
      | q # qs \<Rightarrow> Some (parameter_value (last (q # qs))))"
proof (induction ps arbitrary: acc)
  case Nil
  then show ?case by simp
next
  case (Cons p ps)
  have "fold write_parameter (p # ps) acc (KStr k) =
          fold write_parameter ps (write_parameter p acc) (KStr k)" by simp
  also have "\<dots> = (case filter (\<lambda>p. parameter_name p = k) ps of
                       [] \<Rightarrow> write_parameter p acc (KStr k)
                     | q # qs \<Rightarrow> Some (parameter_value (last (q # qs))))"
    by (rule Cons.IH)
  also have "\<dots> = (case filter (\<lambda>p. parameter_name p = k) (p # ps) of
                       [] \<Rightarrow> acc (KStr k)
                     | q # qs \<Rightarrow> Some (parameter_value (last (q # qs))))"
    by (simp add: write_parameter_apply split: list.splits)
  finally show ?case .
qed

text \<open>
  C3: for every sequence of parameter objects the dictionary that both
  \<open>lambda_handler\<close>s build is the left-to-right fold of the sequence in which each entry
  is written under its name: the value under a name is the value of the last entry with
  that name (for \<open>[{name: x, value: 1}, {name: x, value: 2}]\<close> the value of \<open>x\<close> is
  \<open>2\<close>), and a name no entry has is absent.
\<close>

theorem parameters_last_write_wins:
  assumes "list_all is_parameter ps"
  shows "\<exists>parameters.
           parameters_dict (JArr ps) = Inr parameters \<and>
           parameters = fold write_parameter ps Map.empty \<and>
           (\<forall>k. parameters (KStr k) =
                  (case filter (\<lambda>p. parameter_name p = k) ps of
                     [] \<Rightarrow> None
                   | q # qs \<Rightarrow> Some (parameter_value (last (q # qs)))))"
  using assms by (simp add: parameters_dict_def parameters_loop_fold fold_last_write)

theorem parameters_last_write_wins_witness:
  "list_all is_parameter
     [JObj [(lit ''name'', JStr (lit ''x'')), (lit ''value'', JStr (lit ''1''))],
      JObj [(lit ''name'', JStr (lit ''x'')), (lit ''value'', JStr (lit ''2''))]] \<and>
   (\<exists>parameters.
      parameters_dict
        (JArr [JObj [(lit ''name'', JStr (lit ''x'')), (lit ''value'', JStr (lit ''1''))],
               JObj [(lit ''name'', JStr (lit ''x'')), (lit ''value'', JStr (lit ''2''))]])
        = Inr parameters \<and>
      parameters (KStr (lit ''x'')) = Some (JStr (lit ''2'')))"
proof -
  let ?ps = "[JObj [(lit ''name'', JStr (lit ''x'')), (lit ''value'', JStr (lit ''1''))],
              JObj [(lit ''name'', JStr (lit ''x'')), (lit ''value'', JStr (lit ''2''))]]"
  have h: "list_all is_parameter ?ps" by simp
  from parameters_last_write_wins [OF h] obtain parameters where
    p: "parameters_dict (JArr ?ps) = Inr parameters"
    and l: "\<forall>k. parameters (KStr k) =
                  (case filter (\<lambda>p. parameter_name p = k) ?ps of
                     [] \<Rightarrow> None
                   | q # qs \<Rightarrow> Some (parameter_value (last (q # qs))))"
    by blast
  from l have "parameters (KStr (lit ''x'')) = Some (JStr (lit ''2''))"
    by (simp add: get_default_def)
  with p h show ?thesis by blast
qed

lemma invocation_parameters:
  assumes "is_invocation kvs"
  shows "\<exists>parameters. parameters_dict (get_default kvs (lit ''parameters'') (JArr [])) = Inr parameters"
proof (cases "get_default kvs (lit ''parameters'') (JArr [])")
  case (JArr ps)
  then have "list_all is_parameter ps" using assms by (simp add: is_invocation_def)
  then show ?thesis using JArr by (simp add: parameters_dict_def parameters_loop_fold)
qed (use assms in \<open>simp_all add: is_invocation_def\<close>)

text \<open>
  C2: for every invocation whose function name is not the one the handler supports, the
  handler returns a \<open>FAILURE\<close> envelope that carries the action group and the function
  name of the event, whose error message is \<open>Unknown function: \<close> followed by the name
  (a string name is inserted as it is) and whose details are the list of the supported
  names: \<open>['generate_summary']\<close> for the summary generator, \<open>['process_text']\<close> for the
  text processor.
\<close>

theorem unknown_function_failure:
  assumes "is_invocation kvs"
    and "fn = get_default kvs (lit ''function'') (JStr [])"
    and "action_group = get_default kvs (lit ''actionGroup'') (JStr [])"
  shows "(fn \<noteq> JStr (lit ''generate_summary'') \<longrightarrow>
            sg_lambda_handler lib (JObj kvs) =
              Inr \<lparr>messageVersion = lit ''1.0'', actionGroup = action_group,
                   function_name = fn, responseState = Some (lit ''FAILURE''),
                   responseBody =
                     JObj [(lit ''error'', JStr (lit ''Unknown function: '' @ py_format lib fn)),
                           (lit ''details'', JArr [JStr (lit ''generate_summary'')])]\<rparr>) \<and>
         (fn \<noteq> JStr (lit ''process_text'') \<longrightarrow>
            tp_lambda_handler lib (JObj kvs) =
              Inr \<lparr>messageVersion = lit ''1.0'', actionGroup = action_group,
                   function_name = fn, responseState = Some (lit ''FAILURE''),
                   responseBody =
                     JObj [(lit ''error'', JStr (lit ''Unknown function: '' @ py_format lib fn)),
                           (lit ''details'', JArr [JStr (lit ''process_text'')])]\<rparr>) \<and>
         (\<forall>name. py_format lib (JStr name) = name)"
proof -
  obtain parameters where
    p: "parameters_dict (get_default kvs (lit ''parameters'') (JArr [])) = Inr parameters"
    using invocation_parameters [OF assms(1)] by blast
  have sg: "fn \<noteq> JStr (lit ''generate_summary'') \<Longrightarrow>
            sg_lambda_handler lib (JObj kvs) =
              Inr (create_error_response action_group fn
                     (lit ''Unknown function: '' @ py_format lib fn)
                     (JArr [JStr (lit ''generate_summary'')]))"
    unfolding sg_lambda_handler_def sg_lambda_handler_try_def
    by (simp only: py_get.simps sum.case p assms(2) [symmetric] assms(3) [symmetric] if_False)
  have tp: "fn \<noteq> JStr (lit ''process_text'') \<Longrightarrow>
            tp_lambda_handler lib (JObj kvs) =
              Inr (create_error_response action_group fn
                     (lit ''Unknown function: '' @ py_format lib fn)
                     (JArr [JStr (lit ''process_text'')]))"
    unfolding tp_lambda_handler_def tp_lambda_handler_try_def
    by (simp only: py_get.simps sum.case p assms(2) [symmetric] assms(3) [symmetric] if_False)
  show ?thesis
    using sg tp by (simp add: create_error_response_def py_format_def)
qed


theorem unknown_function_failure_witness:
  "is_invocation [(lit ''function'', JStr (lit ''summarize'')),
                  (lit ''actionGroup'', JStr (lit ''docs'')),
                  (lit ''parameters'', JArr [])] \<and>
   JStr (lit ''summarize'') \<noteq> JStr (lit ''generate_summary'') \<and>
   JStr (lit ''summarize'') \<noteq> JStr (lit ''process_text'') \<and>
   sg_lambda_handler example_lib
     (JObj [(lit ''function'', JStr (lit ''summarize'')),
            (lit ''actionGroup'', JStr (lit ''docs'')),
            (lit ''parameters'', JArr [])]) =
     Inr \<lparr>messageVersion = lit ''1.0'', actionGroup = JStr (lit ''docs''),
          function_name = JStr (lit ''summarize''), responseState = Some (lit ''FAILURE''),
          responseBody =
            JObj [(lit ''error'', JStr (lit ''Unknown function: summarize'')),
                  (lit ''details'', JArr [JStr (lit ''generate_summary'')])]\<rparr> \<and>
   tp_lambda_handler example_lib
     (JObj [(lit ''function'', JStr (lit ''summarize'')),
            (lit ''actionGroup'', JStr (lit ''docs'')),
            (lit ''parameters'', JArr [])]) =
     Inr \<lparr>messageVersion = lit ''1.0'', actionGroup = JStr (lit ''docs''),
          function_name = JStr (lit ''summarize''), responseState = Some (lit ''FAILURE''),
          responseBody =
            JObj [(lit ''error'', JStr (lit ''Unknown function: summarize'')),
                  (lit ''details'', JArr [JStr (lit ''process_text'')])]\<rparr>"
proof -
  let ?kvs = "[(lit ''function'', JStr (lit ''summarize'')),
               (lit ''actionGroup'', JStr (lit ''docs'')),
               (lit ''parameters'', JArr [])]"
  have h1: "is_invocation ?kvs" by (simp add: is_invocation_def get_default_def)
  have h2: "JStr (lit ''summarize'') = get_default ?kvs (lit ''function'') (JStr [])"
    by (simp add: get_default_def)
  have h3: "JStr (lit ''docs'') = get_default ?kvs (lit ''actionGroup'') (JStr [])"
    by (simp add: get_default_def)
  have n1: "JStr (lit ''summarize'') \<noteq> JStr (lit ''generate_summary'')" by simp
  have n2: "JStr (lit ''summarize'') \<noteq> JStr (lit ''process_text'')" by simp
  from unknown_function_failure [OF h1 h2 h3, of example_lib] n1 n2 h1
  show ?thesis by (simp add: py_format_def)
qed

lemma create_error_response_state:
  "responseState (create_error_response action_group fn msg details) = Some (lit ''FAILURE'')"
  by (simp add: create_error_response_def Let_def)

lemma internal_error_response_dict:
  "internal_error_response lib (JObj kvs) e =
     Inr (create_error_response (get_default kvs (lit ''actionGroup'') (JStr []))
            (get_default kvs (lit ''function'') (JStr []))
            (lit ''Internal server error'') (JStr (exn_text lib e)))"
  unfolding internal_error_response_def by (simp only: py_get.simps sum.case)

text \<open>
  The entry points declare \<open>event: Dict[str, Any]\<close>. For an event that is not a
  \<open>dict\<close> the first \<open>event.get\<close> raises inside the \<open>try\<close> and the one of the
  \<open>except\<close> clause raises again.
\<close>

lemma lambda_handler_event_not_dict:
  "sg_lambda_handler lib (JArr xs) = Inl AttributeError"
  "tp_lambda_handler lib (JArr xs) = Inl AttributeError"
  by (simp_all add: sg_lambda_handler_def sg_lambda_handler_try_def tp_lambda_handler_def
        tp_lambda_handler_try_def internal_error_response_def)

text \<open>
  C1: for every event that is a \<open>dict\<close> the \<open>lambda_handler\<close> of the summary generator
  and of the text processor return an envelope, and for every event at all the
  order-lookup \<open>handler\<close> returns a response: no exception leaves an entry point. When
  the body of the \<open>try\<close> raises, the envelope returned is a failure:
  \<open>responseState = "FAILURE"\<close> for the two \<open>lambda_handler\<close>s, and likewise for a fault
  inside \<open>generate_summary\<close> and \<open>process_text\<close>, and \<open>statusCode = 500\<close> for the
  order lookup.
\<close>

theorem handlers_never_raise:
  "(\<exists>response. sg_lambda_handler lib (JObj kvs) = Inr response \<and>
      (\<forall>e. sg_lambda_handler_try lib (JObj kvs) = Inl e \<longrightarrow>
             responseState response = Some (lit ''FAILURE''))) \<and>
   (\<exists>response. tp_lambda_handler lib (JObj kvs) = Inr response \<and>
      (\<forall>e. tp_lambda_handler_try lib (JObj kvs) = Inl e \<longrightarrow>
             responseState response = Some (lit ''FAILURE''))) \<and>
   (\<exists>response. handler lib event = Inr response \<and>
      (\<forall>e. handler_try lib event = Inl e \<longrightarrow> statusCode response = 500)) \<and>
   (\<forall>e. generate_summary_try lib parameters action_group fn = Inl e \<longrightarrow>
          responseState (generate_summary lib parameters action_group fn) =
            Some (lit ''FAILURE'')) \<and>
   (\<forall>e. process_text_try lib parameters action_group fn = Inl e \<longrightarrow>
          responseState (process_text lib parameters action_group fn) =
            Some (lit ''FAILURE''))"
proof (intro conjI)
  show "\<exists>response. sg_lambda_handler lib (JObj kvs) = Inr response \<and>
          (\<forall>e. sg_lambda_handler_try lib (JObj kvs) = Inl e \<longrightarrow>
                 responseState response = Some (lit ''FAILURE''))"
    by (cases "sg_lambda_handler_try lib (JObj kvs)")
       (simp_all only: sg_lambda_handler_def sum.case internal_error_response_dict
          create_error_response_state sum.inject simp_thms ex_simps sum.distinct)
next
  show "\<exists>response. tp_lambda_handler lib (JObj kvs) = Inr response \<and>
          (\<forall>e. tp_lambda_handler_try lib (JObj kvs) = Inl e \<longrightarrow>
                 responseState response = Some (lit ''FAILURE''))"
    by (cases "tp_lambda_handler_try lib (JObj kvs)")
       (simp_all only: tp_lambda_handler_def sum.case internal_error_response_dict
          create_error_response_state sum.inject simp_thms ex_simps sum.distinct)
next
  show "\<exists>response. handler lib event = Inr response \<and>
          (\<forall>e. handler_try lib event = Inl e \<longrightarrow> statusCode response = 500)"
    by (cases "handler_try lib event") (simp_all add: handler_def)
next
  show "\<forall>e. generate_summary_try lib parameters action_group fn = Inl e \<longrightarrow>
          responseState (generate_summary lib parameters action_group fn) =
            Some (lit ''FAILURE'')"
    by (simp add: generate_summary_def create_error_response_state)
next
  show "\<forall>e. process_text_try lib parameters action_group fn = Inl e \<longrightarrow>
          responseState (process_text lib parameters action_group fn) =
            Some (lit ''FAILURE'')"
    by (simp add: process_text_def create_error_response_state)
qed


theorem handlers_never_raise_witness:
  "sg_lambda_handler_try example_lib (JObj [(lit ''parameters'', JNull)]) = Inl TypeError \<and>
   (\<exists>response. sg_lambda_handler example_lib (JObj [(lit ''parameters'', JNull)]) = Inr response \<and>
      responseState response = Some (lit ''FAILURE'')) \<and>
   tp_lambda_handler_try example_lib (JObj [(lit ''parameters'', JNull)]) = Inl TypeError \<and>
   (\<exists>response. tp_lambda_handler example_lib (JObj [(lit ''parameters'', JNull)]) = Inr response \<and>
      responseState response = Some (lit ''FAILURE'')) \<and>
   handler_try example_lib (JObj [(lit ''parameters'', JArr [JInt 7])]) = Inl AttributeError \<and>
   (\<exists>response. handler example_lib (JObj [(lit ''parameters'', JArr [JInt 7])]) = Inr response \<and>
      statusCode response = 500) \<and>
   generate_summary_try example_lib [KStr (lit ''text'') \<mapsto> JInt 5] (JStr []) (JStr [])
     = Inl TypeError \<and>
   responseState (generate_summary example_lib [KStr (lit ''text'') \<mapsto> JInt 5] (JStr []) (JStr []))
     = Some (lit ''FAILURE'') \<and>
   process_text_try example_lib
     [KStr (lit ''s3_bucket'') \<mapsto> JStr (lit ''b''), KStr (lit ''s3_key'') \<mapsto> JStr (lit ''k'')]
     (JStr []) (JStr []) = Inl (Upstream (lit ''NoSuchKey'')) \<and>
   responseState (process_text example_lib
     [KStr (lit ''s3_bucket'') \<mapsto> JStr (lit ''b''), KStr (lit ''s3_key'') \<mapsto> JStr (lit ''k'')]
     (JStr []) (JStr [])) = Some (lit ''FAILURE'')"
proof -
  let ?kvs = "[(lit ''parameters'', JNull)]"
  let ?event = "JObj [(lit ''parameters'', JArr [JInt 7])]"
  let ?sp = "[KStr (lit ''text'') \<mapsto> JInt 5]"
  let ?tp = "[KStr (lit ''s3_bucket'') \<mapsto> JStr (lit ''b''),
              KStr (lit ''s3_key'') \<mapsto> JStr (lit ''k'')]"
  have h1: "sg_lambda_handler_try example_lib (JObj ?kvs) = Inl TypeError"
    by (simp add: handler_eval)
  have h2: "tp_lambda_handler_try example_lib (JObj ?kvs) = Inl TypeError"
    by (simp add: handler_eval)
  have h3: "handler_try example_lib ?event = Inl AttributeError"
    by (simp add: handler_eval)
  have h4: "generate_summary_try example_lib ?sp (JStr []) (JStr []) = Inl TypeError"
    by (simp add: handler_eval)
  have h5: "process_text_try example_lib ?tp (JStr []) (JStr []) = Inl (Upstream (lit ''NoSuchKey''))"
    by (simp add: handler_eval)
  from handlers_never_raise [of example_lib ?kvs ?event ?sp "JStr []" "JStr []"] h1 h2 h3 h4
  have a: "(\<exists>response. sg_lambda_handler example_lib (JObj ?kvs) = Inr response \<and>
              responseState response = Some (lit ''FAILURE'')) \<and>
           (\<exists>response. tp_lambda_handler example_lib (JObj ?kvs) = Inr response \<and>
              responseState response = Some (lit ''FAILURE'')) \<and>
           (\<exists>response. handler example_lib ?event = Inr response \<and> statusCode response = 500) \<and>
           responseState (generate_summary example_lib ?sp (JStr []) (JStr []))
             = Some (lit ''FAILURE'')"
    by metis
  from handlers_never_raise [of example_lib ?kvs ?event ?tp "JStr []" "JStr []"] h5
  have b: "responseState (process_text example_lib ?tp (JStr []) (JStr [])) = Some (lit ''FAILURE'')"
    by metis
  from a b h1 h2 h3 h4 h5 show ?thesis by blast
qed

lemma handler_with_order_id:
  assumes "get_default kvs (lit ''parameters'') (JArr []) = JArr ps"
    and "find_order_id ps = Inr order_id"
  shows "handler lib (JObj kvs) =
           (if \<not> truthy order_id then
              Inr \<lparr>statusCode = 400,
                   body = JObj [(lit ''error'',
                                 JStr (lit ''Missing required parameter: order_id''))]\<rparr>
            else
              (case lookup_order order_id of
                 Inl e \<Rightarrow>
                   Inr \<lparr>statusCode = 500,
                        body = JObj [(lit ''error'', JStr (lit ''Internal server error''))]\<rparr>
               | Inr order_data \<Rightarrow>
                   Inr \<lparr>statusCode = 200,
                        body = JObj [(lit ''order'', order_data),
                                     (lit ''message'',
                                      JStr (lit ''Successfully retrieved order '' @
                                            py_format lib order_id))]\<rparr>))"
  unfolding handler_def handler_try_def
  by (simp only: py_get.simps sum.case assms py_iter.simps split: if_splits sum.splits)
     (simp split: sum.splits)

text \<open>
  C8: for every order id that is not a key of the mock order store \<open>lookup_order\<close>
  returns the object \<open>{order_id: id, status: "not_found", message: "Order not found in
  system"}\<close>, and when the first parameter named \<open>order_id\<close> of an event carries such
  an id (not the empty string, which counts as a missing parameter) the handler answers
  with \<open>statusCode = 200\<close> and that object as \<open>order\<close>, not with a failure.
\<close>

theorem unknown_order_not_found:
  assumes "map_of mock_orders order_id = None"
  shows "lookup_order (JStr order_id) =
           Inr (JObj [(lit ''order_id'', JStr order_id),
                      (lit ''status'', JStr (lit ''not_found'')),
                      (lit ''message'', JStr (lit ''Order not found in system''))]) \<and>
         (get_default kvs (lit ''parameters'') (JArr []) = JArr ps \<and>
          find_order_id ps = Inr (JStr order_id) \<and> order_id \<noteq> [] \<longrightarrow>
          handler lib (JObj kvs) =
            Inr \<lparr>statusCode = 200,
                 body = JObj [(lit ''order'',
                               JObj [(lit ''order_id'', JStr order_id),
                                     (lit ''status'', JStr (lit ''not_found'')),
                                     (lit ''message'',
                                      JStr (lit ''Order not found in system''))]),
                              (lit ''message'',
                               JStr (lit ''Successfully retrieved order '' @ order_id))]\<rparr>)"
proof -
  have l: "lookup_order (JStr order_id) =
             Inr (JObj [(lit ''order_id'', JStr order_id),
                        (lit ''status'', JStr (lit ''not_found'')),
                        (lit ''message'', JStr (lit ''Order not found in system''))])"
    using assms by (simp add: lookup_order_def)
  have "handler lib (JObj kvs) =
          Inr \<lparr>statusCode = 200,
               body = JObj [(lit ''order'',
                             JObj [(lit ''order_id'', JStr order_id),
                                   (lit ''status'', JStr (lit ''not_found'')),
                                   (lit ''message'', JStr (lit ''Order not found in system''))]),
                            (lit ''message'',
                             JStr (lit ''Successfully retrieved order '' @ order_id))]\<rparr>"
    if h: "get_default kvs (lit ''parameters'') (JArr []) = JArr ps"
      "find_order_id ps = Inr (JStr order_id)" "order_id \<noteq> []"
    using l h(3) by (simp add: handler_with_order_id [OF h(1,2)] py_format_def)
  with l show ?thesis by blast
qed

theorem unknown_order_not_found_witness:
  "map_of mock_orders (lit ''99999'') = None \<and>
   get_default [(lit ''parameters'',
                 JArr [JObj [(lit ''name'', JStr (lit ''order_id'')),
                             (lit ''value'', JStr (lit ''99999''))]])]
     (lit ''parameters'') (JArr []) =
     JArr [JObj [(lit ''name'', JStr (lit ''order_id'')), (lit ''value'', JStr (lit ''99999''))]] \<and>
   find_order_id [JObj [(lit ''name'', JStr (lit ''order_id'')),
                        (lit ''value'', JStr (lit ''99999''))]] = Inr (JStr (lit ''99999'')) \<and>
   lit ''99999'' \<noteq> [] \<and>
   handler example_lib
     (JObj [(lit ''parameters'',
             JArr [JObj [(lit ''name'', JStr (lit ''order_id'')),
                         (lit ''value'', JStr (lit ''99999''))]])]) =
     Inr \<lparr>statusCode = 200,
          body = JObj [(lit ''order'',
                        JObj [(lit ''order_id'', JStr (lit ''99999'')),
                              (lit ''status'', JStr (lit ''not_found'')),
                              (lit ''message'', JStr (lit ''Order not found in system''))]),
                       (lit ''message'', JStr (lit ''Successfully retrieved order 99999''))]\<rparr>"
proof -
  let ?ps = "[JObj [(lit ''name'', JStr (lit ''order_id'')), (lit ''value'', JStr (lit ''99999''))]]"
  let ?kvs = "[(lit ''parameters'', JArr ?ps)]"
  have h1: "get_default ?kvs (lit ''parameters'') (JArr []) = JArr ?ps"
    by (simp add: get_default_def)
  have h2: "find_order_id ?ps = Inr (JStr (lit ''99999''))" by (simp add: get_default_def)
  have h3: "lit ''99999'' \<noteq> []" by simp
  have h4: "map_of mock_orders (lit ''99999'') = None" by (simp add: mock_orders_def)
  from unknown_order_not_found [OF h4, of ?kvs ?ps example_lib] h1 h2 h3
  have "handler example_lib (JObj ?kvs) =
          Inr \<lparr>statusCode = 200,
               body = JObj [(lit ''order'',
                             JObj [(lit ''order_id'', JStr (lit ''99999'')),
                                   (lit ''status'', JStr (lit ''not_found'')),
                                   (lit ''message'', JStr (lit ''Order not found in system''))]),
                            (lit ''message'',
                             JStr (lit ''Successfully retrieved order '' @ lit ''99999''))]\<rparr>"
    by blast
  with h1 h2 h4 show ?thesis by simp
qed

lemma py_int_errors:
  "py_int lib v = Inl e \<Longrightarrow> v \<noteq> JPosInf \<Longrightarrow> v \<noteq> JNegInf \<Longrightarrow> e = ValueError \<or> e = TypeError"
  by (cases v) (auto split: option.splits)

text \<open>An infinite \<open>max_length\<close> ends \<open>generate_summary\<close> in its outer \<open>except\<close>, whatever
  the other parameters are.\<close>

lemma generate_summary_max_length_infinite:
  assumes "dict_get parameters (lit ''max_length'') JNull = JPosInf \<or>
           dict_get parameters (lit ''max_length'') JNull = JNegInf"
  shows "generate_summary lib parameters action_group fn =
           create_error_response action_group fn (lit ''Summary generation failed'')
             (JStr (exn_text lib OverflowError))"
proof -
  have "generate_summary_try lib parameters action_group fn = Inl OverflowError"
    using assms unfolding generate_summary_try_def Let_def by auto
  then show ?thesis by (simp add: generate_summary_def)
qed

lemma generate_summary_missing_text:
  assumes "\<not> truthy (dict_get parameters (lit ''text'') (JStr []))"
    and "dict_get parameters (lit ''max_length'') JNull \<noteq> JPosInf"
    and "dict_get parameters (lit ''max_length'') JNull \<noteq> JNegInf"
  shows "generate_summary lib parameters action_group fn =
           create_error_response action_group fn (lit ''Missing required parameter: text'') JNull"
proof -
  define ml where "ml = dict_get parameters (lit ''max_length'') JNull"
  have "\<exists>r. (if ml = JNull then Inr None
              else (case py_int lib ml of
                      Inr i \<Rightarrow> Inr (Some i)
                    | Inl e \<Rightarrow> if e = ValueError \<or> e = TypeError then Inr None else Inl e))
             = Inr r"
    using py_int_errors [of lib ml] assms(2,3) unfolding ml_def [symmetric]
    by (auto split: sum.splits)
  then obtain r where
    r: "(if ml = JNull then Inr None
         else (case py_int lib ml of
                 Inr i \<Rightarrow> Inr (Some i)
               | Inl e \<Rightarrow> if e = ValueError \<or> e = TypeError then Inr None else Inl e))
        = Inr r" by blast
  have "generate_summary_try lib parameters action_group fn =
          Inr (create_error_response action_group fn
                 (lit ''Missing required parameter: text'') JNull)"
    unfolding generate_summary_try_def Let_def ml_def [symmetric]
    by (simp only: r sum.case assms(1) not_False_eq_True if_True)
  then show ?thesis by (simp add: generate_summary_def)
qed

lemma process_text_missing:
  assumes "\<not> truthy (dict_get parameters (lit ''s3_bucket'') JNull) \<or>
           \<not> truthy (dict_get parameters (lit ''s3_key'') JNull)"
  shows "process_text lib parameters action_group fn =
           create_error_response action_group fn (lit ''Missing required parameters'')
             (JObj [(lit ''required'', JArr [JStr (lit ''s3_bucket''), JStr (lit ''s3_key'')])])"
proof -
  have "process_text_try lib parameters action_group fn =
          Inr (create_error_response action_group fn (lit ''Missing required parameters'')
                 (JObj [(lit ''required'',
                         JArr [JStr (lit ''s3_bucket''), JStr (lit ''s3_key'')])]))"
    unfolding process_text_try_def Let_def
    by (simp only: assms if_True)
  then show ?thesis by (simp add: process_text_def)
qed

lemma find_order_id_absent:
  "list_all is_parameter ps \<Longrightarrow> \<forall>p\<in>set ps. parameter_name p \<noteq> lit ''order_id'' \<Longrightarrow>
   find_order_id ps = Inr JNull"
proof (induction ps)
  case Nil
  then show ?case by simp
next
  case (Cons p ps)
  then have ih: "find_order_id ps = Inr JNull" by simp
  from Cons.prems have p: "is_parameter p" "parameter_name p \<noteq> lit ''order_id''" by simp_all
  then obtain kvs where kvs: "p = JObj kvs" by (cases p) simp_all
  have "get_default kvs (lit ''name'') JNull \<noteq> JStr (lit ''order_id'')"
    using p unfolding kvs by (auto simp: get_default_def split: option.splits json.splits)
  then show ?case unfolding kvs using ih by simp
qed

text \<open>
  C9, as the code has it. Order lookup: when the first parameter named \<open>order_id\<close> has
  a falsy value, or no parameter has that name, the handler returns \<open>statusCode = 400\<close>
  with the error \<open>Missing required parameter: order_id\<close>. Summary generator: when
  \<open>text\<close> is absent from the parameter dictionary or falsy there, and \<open>max_length\<close> is
  not an infinite float, the handler returns a \<open>FAILURE\<close> envelope with the error
  \<open>Missing required parameter: text\<close> and no details. Text processor: when \<open>s3_bucket\<close> or \<open>s3_key\<close> is absent or falsy, the
  handler returns a \<open>FAILURE\<close> envelope whose error is \<open>Missing required parameters\<close>
  and whose details list both names. In each case the handler returns; it does not raise.
\<close>

theorem missing_required_parameter:
  "(get_default kvs (lit ''parameters'') (JArr []) = JArr ps \<and>
    find_order_id ps = Inr order_id \<and> \<not> truthy order_id \<longrightarrow>
      handler lib (JObj kvs) =
        Inr \<lparr>statusCode = 400,
             body = JObj [(lit ''error'',
                           JStr (lit ''Missing required parameter: order_id''))]\<rparr>) \<and>
   (list_all is_parameter ps \<and> (\<forall>p\<in>set ps. parameter_name p \<noteq> lit ''order_id'') \<longrightarrow>
      find_order_id ps = Inr JNull) \<and>
   (get_default kvs (lit ''function'') (JStr []) = JStr (lit ''generate_summary'') \<and>
    parameters_dict (get_default kvs (lit ''parameters'') (JArr [])) = Inr parameters \<and>
    \<not> truthy (dict_get parameters (lit ''text'') (JStr [])) \<and>
    dict_get parameters (lit ''max_length'') JNull \<noteq> JPosInf \<and>
    dict_get parameters (lit ''max_length'') JNull \<noteq> JNegInf \<longrightarrow>
      sg_lambda_handler lib (JObj kvs) =
        Inr \<lparr>messageVersion = lit ''1.0'',
             actionGroup = get_default kvs (lit ''actionGroup'') (JStr []),
             function_name = JStr (lit ''generate_summary''),
             responseState = Some (lit ''FAILURE''),
             responseBody =
               JObj [(lit ''error'', JStr (lit ''Missing required parameter: text''))]\<rparr>) \<and>
   (get_default kvs (lit ''function'') (JStr []) = JStr (lit ''process_text'') \<and>
    parameters_dict (get_default kvs (lit ''parameters'') (JArr [])) = Inr parameters \<and>
    (\<not> truthy (dict_get parameters (lit ''s3_bucket'') JNull) \<or>
     \<not> truthy (dict_get parameters (lit ''s3_key'') JNull)) \<longrightarrow>
      tp_lambda_handler lib (JObj kvs) =
        Inr \<lparr>messageVersion = lit ''1.0'',
             actionGroup = get_default kvs (lit ''actionGroup'') (JStr []),
             function_name = JStr (lit ''process_text''),
             responseState = Some (lit ''FAILURE''),
             responseBody =
               JObj [(lit ''error'', JStr (lit ''Missing required parameters'')),
                     (lit ''details'',
                      JObj [(lit ''required'',
                             JArr [JStr (lit ''s3_bucket''), JStr (lit ''s3_key'')])])]\<rparr>)"
proof (intro conjI impI; (elim conjE)?)
  assume "get_default kvs (lit ''parameters'') (JArr []) = JArr ps"
    and "find_order_id ps = Inr order_id" and "\<not> truthy order_id"
  then show "handler lib (JObj kvs) =
        Inr \<lparr>statusCode = 400,
             body = JObj [(lit ''error'',
                           JStr (lit ''Missing required parameter: order_id''))]\<rparr>"
    by (simp add: handler_with_order_id)
next
  assume "list_all is_parameter ps" and "\<forall>p\<in>set ps. parameter_name p \<noteq> lit ''order_id''"
  then show "find_order_id ps = Inr JNull" by (rule find_order_id_absent)
next
  assume f: "get_default kvs (lit ''function'') (JStr []) = JStr (lit ''generate_summary'')"
    and p: "parameters_dict (get_default kvs (lit ''parameters'') (JArr [])) = Inr parameters"
    and t: "\<not> truthy (dict_get parameters (lit ''text'') (JStr []))"
    and m1: "dict_get parameters (lit ''max_length'') JNull \<noteq> JPosInf"
    and m2: "dict_get parameters (lit ''max_length'') JNull \<noteq> JNegInf"
  have "sg_lambda_handler lib (JObj kvs) =
          Inr (generate_summary lib parameters (get_default kvs (lit ''actionGroup'') (JStr []))
                 (JStr (lit ''generate_summary'')))"
    unfolding sg_lambda_handler_def sg_lambda_handler_try_def
    by (simp only: py_get.simps sum.case p f simp_thms if_True)
  then show "sg_lambda_handler lib (JObj kvs) =
        Inr \<lparr>messageVersion = lit ''1.0'',
             actionGroup = get_default kvs (lit ''actionGroup'') (JStr []),
             function_name = JStr (lit ''generate_summary''),
             responseState = Some (lit ''FAILURE''),
             responseBody =
               JObj [(lit ''error'', JStr (lit ''Missing required parameter: text''))]\<rparr>"
    by (simp add: generate_summary_missing_text [OF t m1 m2] create_error_response_def)
next
  assume f: "get_default kvs (lit ''function'') (JStr []) = JStr (lit ''process_text'')"
    and p: "parameters_dict (get_default kvs (lit ''parameters'') (JArr [])) = Inr parameters"
    and t: "\<not> truthy (dict_get parameters (lit ''s3_bucket'') JNull) \<or>
            \<not> truthy (dict_get parameters (lit ''s3_key'') JNull)"
  have "tp_lambda_handler lib (JObj kvs) =
          Inr (process_text lib parameters (get_default kvs (lit ''actionGroup'') (JStr []))
                 (JStr (lit ''process_text'')))"
    unfolding tp_lambda_handler_def tp_lambda_handler_try_def
    by (simp only: py_get.simps sum.case p f simp_thms if_True)
  then show "tp_lambda_handler lib (JObj kvs) =
        Inr \<lparr>messageVersion = lit ''1.0'',
             actionGroup = get_default kvs (lit ''actionGroup'') (JStr []),
             function_name = JStr (lit ''process_text''),
             responseState = Some (lit ''FAILURE''),
             responseBody =
               JObj [(lit ''error'', JStr (lit ''Missing required parameters'')),
                     (lit ''details'',
                      JObj [(lit ''required'',
                             JArr [JStr (lit ''s3_bucket''), JStr (lit ''s3_key'')])])]\<rparr>"
    by (simp add: process_text_missing [OF t] create_error_response_def)
qed


theorem missing_required_parameter_witness:
  "find_order_id [JObj [(lit ''name'', JStr (lit ''customer'')), (lit ''value'', JStr (lit ''Jo''))]]
     = Inr JNull \<and>
   \<not> truthy JNull \<and>
   list_all is_parameter
     [JObj [(lit ''name'', JStr (lit ''customer'')), (lit ''value'', JStr (lit ''Jo''))]] \<and>
   parameter_name (JObj [(lit ''name'', JStr (lit ''customer'')), (lit ''value'', JStr (lit ''Jo''))])
     \<noteq> lit ''order_id'' \<and>
   handler example_lib
     (JObj [(lit ''parameters'',
             JArr [JObj [(lit ''name'', JStr (lit ''customer'')),
                         (lit ''value'', JStr (lit ''Jo''))]])]) =
     Inr \<lparr>statusCode = 400,
          body = JObj [(lit ''error'', JStr (lit ''Missing required parameter: order_id''))]\<rparr> \<and>
   parameters_dict (JArr [JObj [(lit ''name'', JStr (lit ''text'')), (lit ''value'', JStr [])]])
     = Inr [KStr (lit ''text'') \<mapsto> JStr []] \<and>
   \<not> truthy (dict_get [KStr (lit ''text'') \<mapsto> JStr []] (lit ''text'') (JStr [])) \<and>
   dict_get [KStr (lit ''text'') \<mapsto> JStr []] (lit ''max_length'') JNull = JNull \<and>
   sg_lambda_handler example_lib
     (JObj [(lit ''function'', JStr (lit ''generate_summary'')),
            (lit ''parameters'',
             JArr [JObj [(lit ''name'', JStr (lit ''text'')), (lit ''value'', JStr [])]])]) =
     Inr \<lparr>messageVersion = lit ''1.0'', actionGroup = JStr [],
          function_name = JStr (lit ''generate_summary''),
          responseState = Some (lit ''FAILURE''),
          responseBody =
            JObj [(lit ''error'', JStr (lit ''Missing required parameter: text''))]\<rparr> \<and>
   parameters_dict (JArr []) = Inr Map.empty \<and>
   \<not> truthy (dict_get Map.empty (lit ''s3_bucket'') JNull) \<and>
   tp_lambda_handler example_lib
     (JObj [(lit ''function'', JStr (lit ''process_text'')), (lit ''parameters'', JArr [])]) =
     Inr \<lparr>messageVersion = lit ''1.0'', actionGroup = JStr [],
          function_name = JStr (lit ''process_text''),
          responseState = Some (lit ''FAILURE''),
          responseBody =
            JObj [(lit ''error'', JStr (lit ''Missing required parameters'')),
                  (lit ''details'',
                   JObj [(lit ''required'',
                          JArr [JStr (lit ''s3_bucket''), JStr (lit ''s3_key'')])])]\<rparr>"
proof -
  let ?p = "JObj [(lit ''name'', JStr (lit ''customer'')), (lit ''value'', JStr (lit ''Jo''))]"
  let ?ka = "[(lit ''parameters'', JArr [?p])]"
  let ?pb = "JArr [JObj [(lit ''name'', JStr (lit ''text'')), (lit ''value'', JStr [])]]"
  let ?kb = "[(lit ''function'', JStr (lit ''generate_summary'')), (lit ''parameters'', ?pb)]"
  let ?mb = "[KStr (lit ''text'') \<mapsto> JStr []]"
  let ?kc = "[(lit ''function'', JStr (lit ''process_text'')), (lit ''parameters'', JArr [])]"
  have a1: "get_default ?ka (lit ''parameters'') (JArr []) = JArr [?p]"
    by (simp add: get_default_def)
  have a2: "find_order_id [?p] = Inr JNull" by (simp add: get_default_def)
  have a3: "\<not> truthy JNull" by simp
  have a4: "list_all is_parameter [?p]" by simp
  have a5: "parameter_name ?p \<noteq> lit ''order_id''" by (simp add: get_default_def)
  have a6: "\<forall>p\<in>set [?p]. parameter_name p \<noteq> lit ''order_id''" using a5 by simp
  have b1: "get_default ?kb (lit ''function'') (JStr []) = JStr (lit ''generate_summary'')"
    by (simp add: get_default_def)
  have b2: "get_default ?kb (lit ''parameters'') (JArr []) = ?pb" by (simp add: get_default_def)
  have b3: "parameters_dict ?pb = Inr ?mb" by (simp add: parameters_dict_def get_default_def)
  have b4: "\<not> truthy (dict_get ?mb (lit ''text'') (JStr []))" by (simp add: dict_get_def)
  have b6: "dict_get ?mb (lit ''max_length'') JNull = JNull" by (simp add: dict_get_def)
  have b7: "dict_get ?mb (lit ''max_length'') JNull \<noteq> JPosInf"
    "dict_get ?mb (lit ''max_length'') JNull \<noteq> JNegInf" by (simp_all add: dict_get_def)
  have b5: "get_default ?kb (lit ''actionGroup'') (JStr []) = JStr []"
    by (simp add: get_default_def)
  have c1: "get_default ?kc (lit ''function'') (JStr []) = JStr (lit ''process_text'')"
    by (simp add: get_default_def)
  have c2: "get_default ?kc (lit ''parameters'') (JArr []) = JArr []"
    by (simp add: get_default_def)
  have c3: "parameters_dict (JArr []) = Inr Map.empty" by (simp add: parameters_dict_def)
  have c4: "\<not> truthy (dict_get Map.empty (lit ''s3_bucket'') JNull)" by (simp add: dict_get_def)
  have c5: "get_default ?kc (lit ''actionGroup'') (JStr []) = JStr []"
    by (simp add: get_default_def)
  have ra: "handler example_lib (JObj ?ka) =
              Inr \<lparr>statusCode = 400,
                   body = JObj [(lit ''error'',
                                 JStr (lit ''Missing required parameter: order_id''))]\<rparr>"
    using missing_required_parameter [of ?ka "[?p]" JNull example_lib Map.empty] a1 a2 a3
    by blast
  have ra': "find_order_id [?p] = Inr JNull"
    using missing_required_parameter [of ?ka "[?p]" JNull example_lib Map.empty] a4 a6
    by blast
  have rb: "sg_lambda_handler example_lib (JObj ?kb) =
              Inr \<lparr>messageVersion = lit ''1.0'',
                   actionGroup = get_default ?kb (lit ''actionGroup'') (JStr []),
                   function_name = JStr (lit ''generate_summary''),
                   responseState = Some (lit ''FAILURE''),
                   responseBody =
                     JObj [(lit ''error'', JStr (lit ''Missing required parameter: text''))]\<rparr>"
    using missing_required_parameter [of ?kb "[]" JNull example_lib ?mb] b1 b3 b4 b7
    unfolding b2 by blast
  have rc: "tp_lambda_handler example_lib (JObj ?kc) =
              Inr \<lparr>messageVersion = lit ''1.0'',
                   actionGroup = get_default ?kc (lit ''actionGroup'') (JStr []),
                   function_name = JStr (lit ''process_text''),
                   responseState = Some (lit ''FAILURE''),
                   responseBody =
                     JObj [(lit ''error'', JStr (lit ''Missing required parameters'')),
                           (lit ''details'',
                            JObj [(lit ''required'',
                                   JArr [JStr (lit ''s3_bucket''), JStr (lit ''s3_key'')])])]\<rparr>"
    using missing_required_parameter [of ?kc "[]" JNull example_lib Map.empty] c1 c3 c4
    unfolding c2 by blast
  show ?thesis
    using ra ra' rb rc a3 a4 a5 b3 b4 b6 c3 c4 unfolding b5 c5 by (intro conjI)
qed

text \<open>
  C9 as stated fails for the text processor: without \<open>s3_bucket\<close> the error message is
  \<open>Missing required parameters\<close>, not \<open>Missing required parameter: s3_bucket\<close>. It
  also fails for the summary generator when \<open>text\<close> is absent and \<open>max_length\<close> is an
  infinite float: \<open>int(max_length)\<close> raises \<open>OverflowError\<close> before \<open>text\<close> is
  checked, and the answer is \<open>Summary generation failed\<close>.
\<close>

theorem missing_required_parameter_counterexample:
  "tp_lambda_handler example_lib
     (JObj [(lit ''function'', JStr (lit ''process_text'')),
            (lit ''parameters'',
             JArr [JObj [(lit ''name'', JStr (lit ''s3_key'')),
                         (lit ''value'', JStr (lit ''notes.txt''))]])]) =
     Inr \<lparr>messageVersion = lit ''1.0'', actionGroup = JStr [],
          function_name = JStr (lit ''process_text''),
          responseState = Some (lit ''FAILURE''),
          responseBody =
            JObj [(lit ''error'', JStr (lit ''Missing required parameters'')),
                  (lit ''details'',
                   JObj [(lit ''required'',
                          JArr [JStr (lit ''s3_bucket''), JStr (lit ''s3_key'')])])]\<rparr> \<and>
   lit ''Missing required parameters'' \<noteq> lit ''Missing required parameter: s3_bucket'' \<and>
   sg_lambda_handler example_lib
     (JObj [(lit ''function'', JStr (lit ''generate_summary'')),
            (lit ''parameters'',
             JArr [JObj [(lit ''name'', JStr (lit ''max_length'')),
                         (lit ''value'', JPosInf)]])]) =
     Inr \<lparr>messageVersion = lit ''1.0'', actionGroup = JStr [],
          function_name = JStr (lit ''generate_summary''),
          responseState = Some (lit ''FAILURE''),
          responseBody =
            JObj [(lit ''error'', JStr (lit ''Summary generation failed'')),
                  (lit ''details'', JStr (lit ''error''))]\<rparr> \<and>
   lit ''Summary generation failed'' \<noteq> lit ''Missing required parameter: text''"
  by (simp add: tp_lambda_handler_def sg_lambda_handler_def handler_eval process_text_def
        generate_summary_def create_error_response_def)

end
